theory Spec2Isabelle
  imports Complex_Main
begin

section \<open>Python values shared by the functions of \<^verbatim>\<open>plots.py\<close>\<close>

text \<open>
  Exceptions are values: every function of the module that can raise returns
  \<open>py_error + 'a\<close>, with \<open>Inl\<close> for the exception that leaves the call.
\<close>

datatype py_error =
    IndexError
  | KeyError
  | AttributeError
  | ValueError string
  | LibraryError string

text \<open>
  \<^verbatim>\<open>n * [x]\<close>: a list repeated \<open>n\<close> times; a count below one gives the empty list.
\<close>

definition py_repeat :: "int \<Rightarrow> 'a list \<Rightarrow> 'a list" where
  "py_repeat n xs = concat (replicate (nat n) xs)"

text \<open>
  \<^verbatim>\<open>int(length / 2)\<close>: true division followed by truncation towards zero. The
  quotient of an integer below \<open>2 ^ 53\<close> in magnitude by two is exact in binary64,
  and no list can be longer than that, so the quotient is taken exactly.
\<close>

definition int_truediv :: "int \<Rightarrow> int \<Rightarrow> int" where
  "int_truediv a b =
     (if 0 \<le> real_of_int a / real_of_int b
      then \<lfloor>real_of_int a / real_of_int b\<rfloor>
      else \<lceil>real_of_int a / real_of_int b\<rceil>)"

section \<open>\<^verbatim>\<open>doubleit\<close>\<close>

text \<open>
  The first argument is a \<^verbatim>\<open>str\<close>, a \<^verbatim>\<open>list\<close> or anything else (\<^verbatim>\<open>None\<close>
  in the callers). Both subscripts of a branch are evaluated whatever the repeat
  counts are, so a list that is too short raises \<^verbatim>\<open>IndexError\<close>.
\<close>

datatype 'a thing = Str 'a | Lst "'a list" | NoThing

definition doubleit :: "'a thing \<Rightarrow> int \<Rightarrow> 'a \<Rightarrow> py_error + 'a list" where
  "doubleit thing len dflt =
     (case thing of
        Str s \<Rightarrow> Inr (py_repeat len [s])
      | Lst xs \<Rightarrow>
          (let lover2 = int_truediv len 2 in
           if length xs = 3 then
             Inr (py_repeat lover2 [xs ! 0] @ py_repeat (len mod 2) [xs ! 1]
                  @ py_repeat lover2 [xs ! 2])
           else
             (case xs of
                x0 # x1 # _ \<Rightarrow>
                  Inr (py_repeat lover2 [x0] @ py_repeat (len mod 2) [dflt]
                       @ py_repeat lover2 [x1])
              | _ \<Rightarrow> Inl IndexError))
      | NoThing \<Rightarrow> Inr (py_repeat len [dflt]))"

section \<open>\<^verbatim>\<open>create_levels\<close>\<close>

datatype dtype = bool_dtype | int_dtype | float_dtype

record field =
  dtype :: dtype
  vals :: "real list"

text \<open>The \<^verbatim>\<open>levels\<close> argument: \<^verbatim>\<open>None\<close>, a level count or an explicit sequence.\<close>

datatype levels_arg = LevelsNone | LevelsInt int | LevelsSeq "real list"

text \<open>
  The routines \<^verbatim>\<open>create_levels\<close> calls outside the module:
  \<^verbatim>\<open>infer_direction\<close> of \<^verbatim>\<open>jetstream_hugo.definitions\<close> (its result is \<^verbatim>\<open>None\<close>
  or an integer), \<^verbatim>\<open>np.nanquantile(to_plot, q=[lo, hi])\<close> and
  \<^verbatim>\<open>MaxNLocator(n, symmetric=s).tick_values(lowbound, highbound)\<close>. Each may raise.
\<close>

record numerics =
  infer_direction :: "field list \<Rightarrow> py_error + int option"
  nanquantile :: "field list \<Rightarrow> real \<Rightarrow> real \<Rightarrow> py_error + real \<times> real"
  tick_values :: "int \<Rightarrow> bool \<Rightarrow> real \<Rightarrow> real \<Rightarrow> py_error + real list"

text \<open>\<^verbatim>\<open>np.delete(arr, i)\<close> for an index \<open>i \<ge> 0\<close>: out of bounds raises.\<close>

definition np_delete :: "'a list \<Rightarrow> nat \<Rightarrow> py_error + 'a list" where
  "np_delete xs i =
     (if i < length xs then Inr (take i xs @ drop (Suc i) xs) else Inl IndexError)"

text \<open>The lookup \<^verbatim>\<open>{-1: "min", 0: "both", 1: "max"}[direction]\<close>.\<close>

definition extend_of :: "int option \<Rightarrow> py_error + string" where
  "extend_of direction =
     (if direction = Some (- 1) then Inr ''min''
      else if direction = Some 0 then Inr ''both''
      else if direction = Some 1 then Inr ''max''
      else Inl KeyError)"

text \<open>The fill levels: the middle level is deleted when the direction is \<open>0\<close>.\<close>

definition fill_levels ::
  "real list \<Rightarrow> string \<Rightarrow> int option
     \<Rightarrow> py_error + real list \<times> real list \<times> string \<times> int option" where
  "fill_levels levelsc ext direction =
     (if direction = Some 0 then
        (case np_delete levelsc (length levelsc div 2) of
           Inl e \<Rightarrow> Inl e
         | Inr levelscf \<Rightarrow> Inr (levelsc, levelscf, ext, direction))
      else Inr (levelsc, levelsc, ext, direction))"

text \<open>The body of \<^verbatim>\<open>create_levels\<close> after the test of the first field's dtype.\<close>

definition create_levels_inferred ::
  "numerics \<Rightarrow> field list \<Rightarrow> levels_arg \<Rightarrow> real
     \<Rightarrow> py_error + real list \<times> real list \<times> string \<times> int option" where
  "create_levels_inferred E to_plot levels q =
     (case infer_direction E to_plot of
        Inl e \<Rightarrow> Inl e
      | Inr direction \<Rightarrow>
          (case (if q < 1 then extend_of direction else Inr ''neither'') of
             Inl e \<Rightarrow> Inl e
           | Inr ext \<Rightarrow>
               (case levels of
                  LevelsSeq ls \<Rightarrow> fill_levels ls ext direction
                | _ \<Rightarrow>
                    (let n = (case levels of
                                LevelsInt k \<Rightarrow> k
                              | _ \<Rightarrow> if direction = None then 7 else 4)
                     in case nanquantile E to_plot (1 - q) q of
                          Inl e \<Rightarrow> Inl e
                        | Inr (lo, hi) \<Rightarrow>
                            (let lowbound = (if direction = Some 1 then 0 else lo);
                                 highbound = (if direction = Some (- 1) then 0 else hi)
                             in case tick_values E n (direction = Some 0) lowbound highbound of
                                  Inl e \<Rightarrow> Inl e
                                | Inr levelsc \<Rightarrow> fill_levels levelsc ext direction)))))"

definition create_levels ::
  "numerics \<Rightarrow> field list \<Rightarrow> levels_arg \<Rightarrow> real
     \<Rightarrow> py_error + real list \<times> real list \<times> string \<times> int option" where
  "create_levels E to_plot levels q =
     (case to_plot of
        [] \<Rightarrow> Inl IndexError
      | f0 # _ \<Rightarrow>
          if dtype f0 = bool_dtype
          then Inr ([0, 0.5, 1], [0, 0.5, 1], ''neither'', Some 1)
          else create_levels_inferred E to_plot levels q)"

text \<open>
  A fixed instance of the outside routines, for evaluating the functions on
  concrete fields: the direction is read from the signs of the smallest and the
  largest value, the quantile bounds are these two values, and the ticks are the
  bounds with their midpoint.
\<close>

definition all_vals :: "field list \<Rightarrow> real list" where
  "all_vals to_plot = concat (map vals to_plot)"

definition sample_numerics :: numerics where
  "sample_numerics =
     \<lparr>infer_direction = (\<lambda>to_plot.
        (case all_vals to_plot of
           [] \<Rightarrow> Inr None
         | v # vs \<Rightarrow>
             Inr (Some (if 0 \<le> fold min vs v then 1
                        else if fold max vs v \<le> 0 then - 1 else 0)))),
      nanquantile = (\<lambda>to_plot lo hi.
        (case all_vals to_plot of
           [] \<Rightarrow> Inl (LibraryError ''nanquantile'')
         | v # vs \<Rightarrow> Inr (fold min vs v, fold max vs v))),
      tick_values = (\<lambda>n sym lo hi. Inr [lo, (lo + hi) / 2, hi])\<rparr>"

section \<open>\<^verbatim>\<open>make_transparent\<close>\<close>

text \<open>
  A colour is a row of the array a colormap returns; a colormap has its number of
  colours \<^verbatim>\<open>N\<close> and is called on positions in \<open>[0, 1]\<close>. The \<^verbatim>\<open>cmap\<close>
  argument is a name, looked up in \<^verbatim>\<open>mpl.colormaps\<close>, or a colormap.
\<close>

record rgba =
  red :: real
  green :: real
  blue :: real
  alpha :: real

record colormap =
  cmap_N :: int
  rgba_at :: "real \<Rightarrow> rgba"

datatype cmap_arg = CmapName string | CmapObj colormap

definition lookup_cmap :: "(string \<rightharpoonup> colormap) \<Rightarrow> cmap_arg \<Rightarrow> py_error + colormap" where
  "lookup_cmap registry cmap =
     (case cmap of
        CmapName s \<Rightarrow> (case registry s of None \<Rightarrow> Inl KeyError | Some c \<Rightarrow> Inr c)
      | CmapObj c \<Rightarrow> Inr c)"

text \<open>
  \<^verbatim>\<open>np.linspace(start, stop, num)\<close>: \<open>num\<close> evenly spaced positions, a single
  one being \<open>start\<close>; a negative count raises.
\<close>

definition np_linspace :: "real \<Rightarrow> real \<Rightarrow> int \<Rightarrow> py_error + real list" where
  "np_linspace start stop num =
     (if num < 0 then Inl (ValueError ''Number of samples must be non-negative.'')
      else Inr (map (\<lambda>i. if num = 1 then start
                          else start + real i * ((stop - start) / real_of_int (num - 1)))
                  [0..<nat num]))"

text \<open>
  A bound of a slice on \<open>n\<close> rows: a negative bound counts from the end, and the
  result is clipped to \<open>[0, n]\<close>.
\<close>

definition slice_bound :: "nat \<Rightarrow> int \<Rightarrow> nat" where
  "slice_bound n i = nat (max 0 (min (int n) (if i < 0 then i + int n else i)))"

text \<open>
  \<^verbatim>\<open>colorlist[start:stop, -1] = v\<close>: the last column, the alpha channel, of the
  rows of the slice is set to \<open>v\<close>.
\<close>

definition set_alpha :: "int option \<Rightarrow> int option \<Rightarrow> real \<Rightarrow> rgba list \<Rightarrow> rgba list" where
  "set_alpha start stop v colorlist =
     (let n = length colorlist;
          lo = (case start of None \<Rightarrow> 0 | Some s \<Rightarrow> slice_bound n s);
          hi = (case stop of None \<Rightarrow> n | Some s \<Rightarrow> slice_bound n s)
      in map (\<lambda>(i, c). if lo \<le> i \<and> i < hi then c\<lparr>alpha := v\<rparr> else c)
           (enumerate 0 colorlist))"

text \<open>
  The result is the colour list the \<^verbatim>\<open>ListedColormap\<close> is built from.
\<close>

definition make_transparent ::
  "(string \<rightharpoonup> colormap) \<Rightarrow> cmap_arg \<Rightarrow> int option \<Rightarrow> real \<Rightarrow> int \<Rightarrow> int
     \<Rightarrow> py_error + rgba list" where
  "make_transparent registry cmap nlev alpha_others n_transparent direction =
     (case lookup_cmap registry cmap of
        Inl e \<Rightarrow> Inl e
      | Inr cm \<Rightarrow>
          (let nlev = (case nlev of None \<Rightarrow> cmap_N cm | Some n \<Rightarrow> n) in
           case np_linspace 0 1 (nlev + (if direction = 0 then 1 else 0)) of
             Inl e \<Rightarrow> Inl e
           | Inr xs \<Rightarrow>
               (let colorlist = map (rgba_at cm) xs in
                if direction = 0 then
                  (let midpoint = \<lceil>real_of_int nlev / 2\<rceil> in
                   Inr (set_alpha None (Some (midpoint - n_transparent + 1)) alpha_others
                         (set_alpha (Some (midpoint + n_transparent)) None alpha_others
                           (set_alpha (Some (midpoint - n_transparent + 1))
                              (Some (midpoint + n_transparent)) 0 colorlist))))
                else if direction = 1 then
                  Inr (set_alpha (Some n_transparent) None alpha_others
                        (set_alpha None (Some n_transparent) 0 colorlist))
                else
                  Inr (set_alpha None (Some (- n_transparent)) alpha_others
                        (set_alpha (Some (- n_transparent)) None 0 colorlist)))))"

text \<open>A colormap to evaluate on: greys from black to white, all opaque.\<close>

definition grey_cmap :: colormap where
  "grey_cmap = \<lparr>cmap_N = 256, rgba_at = (\<lambda>x. \<lparr>red = x, green = x, blue = x, alpha = 1\<rparr>)\<rparr>"

section \<open>\<^verbatim>\<open>Clusterplot.cluster_on_fig\<close>\<close>

type_synonym point = "real \<times> real"

text \<open>\<^verbatim>\<open>xs[i]\<close>: a negative index counts from the end; out of range raises.\<close>

definition py_index :: "'a list \<Rightarrow> int \<Rightarrow> py_error + 'a" where
  "py_index xs i =
     (if 0 \<le> i \<and> i < int (length xs) then Inr (xs ! nat i)
      else if i < 0 \<and> - int (length xs) \<le> i then Inr (xs ! nat (i + int (length xs)))
      else Inl IndexError)"

text \<open>
  The list \<^verbatim>\<open>newcs\<close> of one pass of the tiling loop: the point shifted by
  \<open>sgnx * dx / 2.01\<close> and \<open>sgny * dy / 2.01\<close> for the pairs of
  \<^verbatim>\<open>product([-1, 0, 1], [-1, 0, 1])\<close>.
\<close>

definition newcs :: "real \<Rightarrow> real \<Rightarrow> point \<Rightarrow> point list" where
  "newcs dx dy coord =
     map (\<lambda>(sgnx, sgny). (fst coord + sgnx * dx / 2.01, snd coord + sgny * dy / 2.01))
       (List.product [- 1, 0, 1] [- 1, 0, 1])"

text \<open>
  The tiling loop runs over the pairs of the original \<^verbatim>\<open>coords\<close> and
  \<^verbatim>\<open>clu_labs\<close>, and appends to both arrays in each pass.
\<close>

fun tile_loop ::
  "real \<Rightarrow> real \<Rightarrow> (point \<times> int) list \<Rightarrow> point list \<times> int list \<Rightarrow> point list \<times> int list" where
  "tile_loop dx dy [] (coords, clu_labs) = (coords, clu_labs)"
| "tile_loop dx dy ((coord, val) # rest) (coords, clu_labs) =
     tile_loop dx dy rest
       (coords @ newcs dx dy coord, clu_labs @ py_repeat (int (length (newcs dx dy coord))) [val])"

text \<open>
  The spacings \<open>dx\<close> and \<open>dy\<close> are read from the rows \<^verbatim>\<open>self.nrow\<close>, \<open>0\<close> and
  \<open>2\<close> of \<^verbatim>\<open>coords\<close>, and the loop gives the tiled cloud with its labels.
\<close>

definition tile_coords :: "int \<Rightarrow> point list \<Rightarrow> int list \<Rightarrow> py_error + point list \<times> int list" where
  "tile_coords nrow coords clu_labs =
     (case py_index coords nrow of
        Inl e \<Rightarrow> Inl e
      | Inr cn \<Rightarrow>
          (case py_index coords 0 of
             Inl e \<Rightarrow> Inl e
           | Inr c0 \<Rightarrow>
               (case py_index coords 2 of
                  Inl e \<Rightarrow> Inl e
                | Inr c2 \<Rightarrow>
                    (let dx = fst cn - fst c0;
                         dy = (snd c2 - snd c0) / 2
                     in Inr (tile_loop dx dy (zip coords clu_labs) (coords, clu_labs))))))"


text \<open>\<^verbatim>\<open>np.unique\<close>: the distinct labels in increasing order.\<close>

definition np_unique :: "int list \<Rightarrow> int list" where
  "np_unique xs = sort (remdups xs)"

text \<open>
  The \<^verbatim>\<open>cmap\<close> argument of \<^verbatim>\<open>cluster_on_fig\<close>: a name, a colormap, or a list
  of colours that is used as it is.
\<close>

datatype cluster_cmap =
    ClusterCmapName string
  | ClusterCmapObj colormap
  | ClusterCmapList "rgba list"

definition cluster_colors ::
  "(string \<rightharpoonup> colormap) \<Rightarrow> cluster_cmap option \<Rightarrow> int list \<Rightarrow> py_error + rgba list" where
  "cluster_colors registry cmap unique_labs =
     (let sym = list_ex (\<lambda>l. l < 0) unique_labs;
          cmap = (case cmap of
                    None \<Rightarrow> ClusterCmapName (if sym then ''PiYG'' else ''Greens'')
                  | Some c \<Rightarrow> c)
      in case (case cmap of
                 ClusterCmapName s \<Rightarrow>
                   (case registry s of None \<Rightarrow> Inl KeyError | Some c \<Rightarrow> Inr (ClusterCmapObj c))
               | c \<Rightarrow> Inr c) of
           Inl e \<Rightarrow> Inl e
         | Inr cmap \<Rightarrow>
             (let nabove = int (length (filter (\<lambda>l. 0 < l) unique_labs))
              in case cmap of
                   ClusterCmapList cs \<Rightarrow> Inr cs
                 | ClusterCmapName s \<Rightarrow> Inl KeyError
                 | ClusterCmapObj cm \<Rightarrow>
                     if sym then
                       (let nbelow = int (length (filter (\<lambda>l. l < 0) unique_labs))
                        in case np_linspace 1 0.66 nabove of
                             Inl e \<Rightarrow> Inl e
                           | Inr cab \<Rightarrow>
                               (case np_linspace 0.33 0 nbelow of
                                  Inl e \<Rightarrow> Inl e
                                | Inr cbe \<Rightarrow>
                                    (let zerocol = (if 0 \<in> set unique_labs then [0.5] else [])
                                     in Inr (map (rgba_at cm) (cbe @ zerocol @ cab)))))
                     else
                       (let zerocol = (if 0 \<in> set unique_labs then [0.0] else [])
                        in case np_linspace 1.0 0.33 nabove of
                             Inl e \<Rightarrow> Inl e
                           | Inr colors \<Rightarrow> Inr (map (rgba_at cm) (zerocol @ colors)))))"

text \<open>
  A face or edge colour of a patch is a colour name (\<^verbatim>\<open>"black"\<close>, \<^verbatim>\<open>"none"\<close>) or
  a row of the colour array. A patch is the \<^verbatim>\<open>PathPatch\<close> built from one path.
\<close>

datatype paint = PaintName string | PaintRGBA rgba

record patch =
  path :: "point list"
  fc :: paint
  patch_alpha :: real
  ec :: paint
  lw :: real
  linestyle :: string

text \<open>
  The geometry done outside the module for one label: the tiled cloud is rescaled
  into the box spanned by the first and the last panel, the membership of each
  point in the label is interpolated by \<^verbatim>\<open>LinearNDInterpolator\<close> on a grid of
  \<open>200 \<times> 200\<close> positions, and \<^verbatim>\<open>contour_generator\<close> gives the paths of the filled
  region between \<open>0.99\<close> and \<open>1\<close>, or of the contour line at \<open>0.99\<close>. Each may raise.
\<close>

record contouring =
  filled :: "point \<times> point \<Rightarrow> point list \<Rightarrow> bool list \<Rightarrow> py_error + point list list"
  lines :: "point \<times> point \<Rightarrow> point list \<Rightarrow> bool list \<Rightarrow> py_error + point list list"

text \<open>
  The state of a \<^verbatim>\<open>Clusterplot\<close> that \<^verbatim>\<open>cluster_on_fig\<close> reads and changes: the
  number of rows, the box \<open>((xmin, ymin), (xmax, ymax))\<close> of the positions of the
  first and the last panel, and the artists added to the figure.
\<close>

record clusterplot =
  nrow :: int
  panel_box :: "point \<times> point"
  artists :: "patch list"

text \<open>The patches of one pass of the loop over the labels, for the label at index \<open>i\<close>.\<close>

definition label_patches ::
  "contouring \<Rightarrow> point \<times> point \<Rightarrow> point list \<Rightarrow> int list \<Rightarrow> rgba list \<Rightarrow> nat \<Rightarrow> int
     \<Rightarrow> py_error + patch list" where
  "label_patches G box cloud clu_labs colors i lab =
     (if lab = 0 then
        (case filled G box cloud (map (\<lambda>v. v = lab) clu_labs) of
           Inl e \<Rightarrow> Inl e
         | Inr iter \<Rightarrow>
             Inr (map (\<lambda>p. \<lparr>path = p, fc = PaintName ''black'', patch_alpha = 0.2,
                             ec = PaintName ''none'', lw = 6, linestyle = ''none''\<rparr>) iter))
      else
        (case lines G box cloud (map (\<lambda>v. v = lab) clu_labs) of
           Inl e \<Rightarrow> Inl e
         | Inr iter \<Rightarrow>
             (case py_index colors (int i) of
                Inl e \<Rightarrow> Inl e
              | Inr c \<Rightarrow>
                  Inr (map (\<lambda>p. \<lparr>path = p, fc = PaintName ''none'', patch_alpha = 1,
                                  ec = PaintRGBA c, lw = 6,
                                  linestyle = (if 0 \<le> lab then ''solid'' else ''dashed'')\<rparr>) iter))))"

text \<open>
  The loop over \<^verbatim>\<open>enumerate(unique_labs)\<close>: the patches of a label are added to the
  figure before the next label is treated, so an exception leaves the patches of the
  labels before it on the figure.
\<close>

fun label_loop ::
  "contouring \<Rightarrow> point \<times> point \<Rightarrow> point list \<Rightarrow> int list \<Rightarrow> rgba list \<Rightarrow> (nat \<times> int) list
     \<Rightarrow> patch list \<Rightarrow> patch list \<times> py_error option" where
  "label_loop G box cloud clu_labs colors [] arts = (arts, None)"
| "label_loop G box cloud clu_labs colors ((i, lab) # rest) arts =
     (case label_patches G box cloud clu_labs colors i lab of
        Inl e \<Rightarrow> (arts, Some e)
      | Inr ps \<Rightarrow> label_loop G box cloud clu_labs colors rest (arts @ ps))"

definition cluster_on_fig ::
  "contouring \<Rightarrow> (string \<rightharpoonup> colormap) \<Rightarrow> clusterplot \<Rightarrow> point list \<Rightarrow> int list
     \<Rightarrow> cluster_cmap option \<Rightarrow> clusterplot \<times> py_error option" where
  "cluster_on_fig G registry self coords clu_labs cmap =
     (let unique_labs = np_unique clu_labs
      in case cluster_colors registry cmap unique_labs of
           Inl e \<Rightarrow> (self, Some e)
         | Inr colors \<Rightarrow>
             (case tile_coords (nrow self) coords clu_labs of
                Inl e \<Rightarrow> (self, Some e)
              | Inr (cloud, tiled_labs) \<Rightarrow>
                  (case label_loop G (panel_box self) cloud tiled_labs colors
                          (enumerate 0 unique_labs) (artists self) of
                     (arts, err) \<Rightarrow> (self\<lparr>artists := arts\<rparr>, err))))"

text \<open>
  Contouring routines to evaluate on: one triangle for a filled region, one segment
  per contour line.
\<close>

definition sample_contouring :: contouring where
  "sample_contouring =
     \<lparr>filled = (\<lambda>box cloud member. Inr [[fst box, (fst (snd box), snd (fst box)), snd box]]),
      lines = (\<lambda>box cloud member. Inr [[fst box, snd box]])\<rparr>"

section \<open>\<^verbatim>\<open>Clusterplot.add_stippling\<close> and \<^verbatim>\<open>Clusterplot.add_any_contour_from_mask\<close>\<close>

text \<open>
  A \<^verbatim>\<open>DataArray\<close>: the names of its dimensions, its shape, its values in row-major
  order, and its coordinates \<^verbatim>\<open>lon\<close> and \<^verbatim>\<open>lat\<close> when it has them. The
  subscripts \<^verbatim>\<open>da[0]\<close> and \<^verbatim>\<open>da[:1]\<close> act on the first dimension, whatever
  its name is.
\<close>

record dataarray =
  dims :: "string list"
  shape :: "nat list"
  data :: "real list"
  lon :: "real list option"
  lat :: "real list option"

text \<open>
  The boolean mask of shape (time, group), kept with its shape so that a mask
  without rows still has its columns; \<^verbatim>\<open>mask.T\<close> is the list of its columns.
\<close>

record mask =
  mask_shape :: "nat \<times> nat"
  mask_rows :: "bool list list"

definition mask_T :: "mask \<Rightarrow> bool list list" where
  "mask_T m = map (\<lambda>j. map (\<lambda>row. row ! j) (mask_rows m)) [0..<snd (mask_shape m)]"

text \<open>\<^verbatim>\<open>np.sum\<close> of a boolean array: the number of entries that are set.\<close>

definition np_sum :: "bool list \<Rightarrow> int" where
  "np_sum mas = int (length (filter (\<lambda>b. b) mas))"

text \<open>\<^verbatim>\<open>np.zeros(shape)\<close>, in row-major order.\<close>

definition np_zeros :: "nat list \<Rightarrow> real list" where
  "np_zeros shp = replicate (prod_list shp) 0"

text \<open>
  What the two methods call outside themselves: \<^verbatim>\<open>da.isel({dim: mas})\<close> and
  \<^verbatim>\<open>.mean(dim=dim)\<close> of xarray, \<^verbatim>\<open>field_significance(group, da, 100, q=0.01)[int(FDR)]\<close>
  of \<^verbatim>\<open>jetstream_hugo.stats\<close>, the methods \<^verbatim>\<open>add_contourf\<close> (with its
  \<^verbatim>\<open>contours\<close> flag) and \<^verbatim>\<open>add_contour\<close> that draw on the panels, the call
  \<^verbatim>\<open>ax.contourf(lon, lat, signif, levels=3, hatches=["", hatch], colors="none")\<close> on
  the panel of an index, which gives a contour set, the loop over
  \<^verbatim>\<open>cs.collections\<close> that sets the edge colour and the line width of a contour
  set, and \<^verbatim>\<open>repr\<close> of a string. Each but the last may raise.
\<close>

record ('im, 'cs) plotting =
  xr_isel :: "dataarray \<Rightarrow> string \<Rightarrow> bool list \<Rightarrow> py_error + dataarray"
  xr_mean :: "dataarray \<Rightarrow> string \<Rightarrow> py_error + dataarray"
  field_significance :: "dataarray \<Rightarrow> dataarray \<Rightarrow> bool \<Rightarrow> py_error + dataarray"
  add_contourf :: "dataarray list \<Rightarrow> bool \<Rightarrow> py_error + 'im"
  add_contour :: "dataarray list \<Rightarrow> py_error + unit"
  ax_contourf :: "nat \<Rightarrow> real list \<Rightarrow> real list \<Rightarrow> dataarray \<Rightarrow> string \<Rightarrow> py_error + 'cs"
  set_edges :: "'cs \<Rightarrow> string \<Rightarrow> py_error + unit"
  py_repr :: "string \<Rightarrow> string"

text \<open>
  The calls that have drawn on the panels, in the order they are made: the two
  contour methods with their fields, the hatched \<^verbatim>\<open>contourf\<close> of a significance
  field on a panel, and the edge colour given to the contour set of a panel.
\<close>

datatype draw_call =
    Contourf "dataarray list" bool
  | Contour "dataarray list"
  | Hatch nat dataarray string
  | EdgeColor nat string

text \<open>A loop that appends one result per item and stops at the first exception.\<close>

fun collect :: "('a \<Rightarrow> py_error + 'b) \<Rightarrow> 'a list \<Rightarrow> py_error + 'b list" where
  "collect f [] = Inr []"
| "collect f (x # xs) =
     (case f x of
        Inl e \<Rightarrow> Inl e
      | Inr y \<Rightarrow> (case collect f xs of Inl e \<Rightarrow> Inl e | Inr ys \<Rightarrow> Inr (y # ys)))"

text \<open>
  \<^verbatim>\<open>da[:1].copy(data=np.zeros((1, *da.shape[1:])))\<close>: the slice keeps at most one
  step of the first dimension, and \<^verbatim>\<open>copy\<close> raises when the new data has another
  shape than the slice.
\<close>

definition stippling_placeholder :: "dataarray \<Rightarrow> py_error + dataarray" where
  "stippling_placeholder da =
     (case shape da of
        [] \<Rightarrow> Inl IndexError
      | n0 # rest \<Rightarrow>
          if 1 # rest \<noteq> min 1 n0 # rest
          then Inl (ValueError ''Data shape must match shape of object'')
          else Inr (da\<lparr>shape := 1 # rest, data := np_zeros (1 # rest)\<rparr>))"

text \<open>The item of \<^verbatim>\<open>to_test\<close> for one column \<^verbatim>\<open>mas\<close> of the mask.\<close>

definition to_test_item ::
  "('im, 'cs) plotting \<Rightarrow> dataarray \<Rightarrow> bool list \<Rightarrow> py_error + dataarray" where
  "to_test_item P da mas =
     (if np_sum mas < 1 then stippling_placeholder da else xr_isel P da ''time'' mas)"

text \<open>
  The last loop of \<^verbatim>\<open>add_stippling\<close>, over the pairs of a panel and a significance
  field: the hatched \<^verbatim>\<open>contourf\<close>, then the edges of its contour set. An
  exception leaves what was drawn before it on the panels.
\<close>

fun hatch_loop ::
  "('im, 'cs) plotting \<Rightarrow> real list \<Rightarrow> real list \<Rightarrow> string \<Rightarrow> string
     \<Rightarrow> (nat \<times> dataarray) list \<Rightarrow> draw_call list \<Rightarrow> draw_call list \<times> py_error option" where
  "hatch_loop P lon_values lat_values color hatch [] calls = (calls, None)"
| "hatch_loop P lon_values lat_values color hatch ((ax, signif) # rest) calls =
     (case ax_contourf P ax lon_values lat_values signif hatch of
        Inl e \<Rightarrow> (calls, Some e)
      | Inr cs \<Rightarrow>
          (case set_edges P cs color of
             Inl e \<Rightarrow> (calls @ [Hatch ax signif hatch], Some e)
           | Inr _ \<Rightarrow>
               hatch_loop P lon_values lat_values color hatch rest
                 (calls @ [Hatch ax signif hatch, EdgeColor ax color])))"

text \<open>
  \<^verbatim>\<open>add_stippling\<close> on a figure of \<open>n_axes\<close> panels: the groups, the coordinates
  \<^verbatim>\<open>da.lon.values\<close> and \<^verbatim>\<open>da.lat.values\<close>, the significance field of each
  group, and the loop that draws. The result is the list of the drawing calls made
  and the exception raised, if any.
\<close>

definition add_stippling ::
  "('im, 'cs) plotting \<Rightarrow> nat \<Rightarrow> dataarray \<Rightarrow> mask \<Rightarrow> bool \<Rightarrow> string \<Rightarrow> string
     \<Rightarrow> draw_call list \<times> py_error option" where
  "add_stippling P n_axes da msk FDR color hatch =
     (case collect (to_test_item P da) (mask_T msk) of
        Inl e \<Rightarrow> ([], Some e)
      | Inr to_test \<Rightarrow>
          (case lon da of
             None \<Rightarrow> ([], Some AttributeError)
           | Some lon_values \<Rightarrow>
               (case lat da of
                  None \<Rightarrow> ([], Some AttributeError)
                | Some lat_values \<Rightarrow>
                    (case collect (\<lambda>i. field_significance P (to_test ! i) da FDR)
                            [0..<snd (mask_shape msk)] of
                       Inl e \<Rightarrow> ([], Some e)
                     | Inr significances \<Rightarrow>
                         hatch_loop P lon_values lat_values color hatch
                           (zip [0..<n_axes] significances) []))))"

text \<open>
  \<^verbatim>\<open>da[0].copy(data=np.zeros(da.shape[1:]))\<close>: the first step of the first
  dimension, which must exist, with zeros for its values.
\<close>

definition contour_placeholder :: "dataarray \<Rightarrow> py_error + dataarray" where
  "contour_placeholder da =
     (case shape da of
        [] \<Rightarrow> Inl IndexError
      | n0 # rest \<Rightarrow>
          if n0 = 0 then Inl IndexError
          else Inr (da\<lparr>dims := tl (dims da), shape := rest, data := np_zeros rest\<rparr>))"

text \<open>The item of \<^verbatim>\<open>to_plot\<close> for one column \<^verbatim>\<open>mas\<close> of the mask.\<close>

definition to_plot_item ::
  "('im, 'cs) plotting \<Rightarrow> dataarray \<Rightarrow> string \<Rightarrow> bool list \<Rightarrow> py_error + dataarray" where
  "to_plot_item P da time_name mas =
     (if np_sum mas < 1 then contour_placeholder da
      else (case xr_isel P da time_name mas of
              Inl e \<Rightarrow> Inl e
            | Inr sub \<Rightarrow> xr_mean P sub time_name))"

text \<open>The list \<^verbatim>\<open>to_plot\<close> that \<^verbatim>\<open>add_any_contour_from_mask\<close> builds first.\<close>

definition contour_to_plot ::
  "('im, 'cs) plotting \<Rightarrow> dataarray \<Rightarrow> mask \<Rightarrow> py_error + dataarray list" where
  "contour_to_plot P da msk =
     (case (if ''time'' \<in> set (dims da) then Inr ''time''
            else (case dims da of [] \<Rightarrow> Inl IndexError | d # _ \<Rightarrow> Inr d)) of
        Inl e \<Rightarrow> Inl e
      | Inr time_name \<Rightarrow> collect (to_plot_item P da time_name) (mask_T msk))"

text \<open>The \<^verbatim>\<open>stippling\<close> argument: a boolean, or the colour as a string.\<close>

datatype stippling_arg = StipplingBool bool | StipplingStr string

text \<open>
  The result is the list of the drawing calls made, and the value returned or the
  exception raised.
\<close>

definition add_any_contour_from_mask ::
  "('im, 'cs) plotting \<Rightarrow> nat \<Rightarrow> dataarray \<Rightarrow> mask \<Rightarrow> string \<Rightarrow> stippling_arg
     \<Rightarrow> draw_call list \<times> (py_error + 'im option)" where
  \<open>add_any_contour_from_mask P n_axes da msk type stippling =
     (case contour_to_plot P da msk of
        Inl e \<Rightarrow> ([], Inl e)
      | Inr to_plot \<Rightarrow>
          (case (if type = ''contourf'' then
                   (case add_contourf P to_plot False of
                      Inl e \<Rightarrow> ([Contourf to_plot False], Inl e)
                    | Inr im \<Rightarrow> ([Contourf to_plot False], Inr (Some im)))
                 else if type = ''contour'' then
                   (case add_contour P to_plot of
                      Inl e \<Rightarrow> ([Contour to_plot], Inl e)
                    | Inr _ \<Rightarrow> ([Contour to_plot], Inr None))
                 else if type = ''both'' then
                   (case add_contourf P to_plot True of
                      Inl e \<Rightarrow> ([Contourf to_plot True], Inl e)
                    | Inr im \<Rightarrow> ([Contourf to_plot True], Inr (Some im)))
                 else
                   ([], Inl (ValueError (''Wrong type='' @ py_repr P type
                       @ '', choose among "contourf", "contour" or "both"'')))) of
             (calls, Inl e) \<Rightarrow> (calls, Inl e)
           | (calls, Inr im) \<Rightarrow>
               if (case stippling of StipplingBool b \<Rightarrow> b | StipplingStr s \<Rightarrow> s \<noteq> [])
               then
                 (case add_stippling P n_axes da msk True
                         (case stippling of StipplingStr s \<Rightarrow> s | _ \<Rightarrow> ''black'') ''..'' of
                    (hatches, Some e) \<Rightarrow> (calls @ hatches, Inl e)
                  | (hatches, None) \<Rightarrow> (calls @ hatches, Inr im))
               else (calls, Inr im)))\<close>

text \<open>
  An instance of the outside routines to evaluate on: \<^verbatim>\<open>isel\<close> keeps the steps of
  the first dimension whose flag is set and raises when the flags do not match it,
  \<^verbatim>\<open>mean\<close> averages over these steps, the significance test finds nothing
  significant, the drawing methods return, and the hatched \<^verbatim>\<open>contourf\<close> raises
  unless the field is a grid of at least two by two values that fits the
  coordinates.
\<close>

definition sample_plotting :: "(nat, nat) plotting" where
  "sample_plotting =
     \<lparr>xr_isel = (\<lambda>da dim mas.
        (case shape da of
           [] \<Rightarrow> Inl IndexError
         | n0 # rest \<Rightarrow>
             if length mas \<noteq> n0 then Inl IndexError
             else Inr (da\<lparr>shape := length (filter (\<lambda>b. b) mas) # rest,
                           data := concat (map (\<lambda>i. take (prod_list rest)
                                                    (drop (i * prod_list rest) (data da)))
                                            (filter (\<lambda>i. mas ! i) [0..<n0]))\<rparr>))),
      xr_mean = (\<lambda>da dim.
        (case shape da of
           [] \<Rightarrow> Inl (ValueError ''no dimension'')
         | n0 # rest \<Rightarrow>
             Inr (da\<lparr>dims := tl (dims da), shape := rest,
                      data := map (\<lambda>p. sum_list (map (\<lambda>i. data da ! (i * prod_list rest + p))
                                                  [0..<n0]) / real n0)
                               [0..<prod_list rest]\<rparr>))),
      field_significance = (\<lambda>group da FDR.
        Inr (group\<lparr>dims := tl (dims group), shape := tl (shape group),
                    data := np_zeros (tl (shape group))\<rparr>)),
      add_contourf = (\<lambda>to_plot contours. Inr (length to_plot)),
      add_contour = (\<lambda>to_plot. Inr ()),
      ax_contourf = (\<lambda>ax lon_values lat_values signif hatch.
        if shape signif = [length lat_values, length lon_values]
           \<and> 2 \<le> length lat_values \<and> 2 \<le> length lon_values
        then Inr ax
        else Inl (LibraryError ''Input z must be at least a (2, 2) shaped array'')),
      set_edges = (\<lambda>cs color. Inr ()),
      py_repr = (\<lambda>s. CHR 0x27 # s @ [CHR 0x27])\<rparr>"

section \<open>Properties of \<^verbatim>\<open>doubleit\<close>\<close>

lemma int_truediv_two: "0 \<le> L \<Longrightarrow> int_truediv L 2 = L div 2"
proof -
  assume "0 \<le> L"
  then have "0 \<le> real_of_int L / real_of_int 2" by simp
  moreover have "\<lfloor>real_of_int L / real_of_int 2\<rfloor> = L div 2"
    by (rule floor_divide_of_int_eq)
  ultimately show ?thesis unfolding int_truediv_def by (simp only: if_True)
qed

lemma py_repeat_single: "py_repeat n [x] = replicate (nat n) x"
  by (induction "nat n" arbitrary: n) (simp_all add: py_repeat_def)

text \<open>
  C5. For a three-element list \<open>[a, b, c]\<close> and a non-negative length \<open>L\<close>,
  \<^verbatim>\<open>doubleit\<close> returns \<open>a\<close> repeated \<open>L div 2\<close> times, then \<open>b\<close> repeated
  \<open>L mod 2\<close> times, then \<open>c\<close> repeated \<open>L div 2\<close> times, a list of length \<open>L\<close>,
  whatever the default is.
\<close>

theorem doubleit_three:
  assumes "0 \<le> L"
  shows "doubleit (Lst [a, b, c]) L dflt =
           Inr (replicate (nat (L div 2)) a @ replicate (nat (L mod 2)) b
                @ replicate (nat (L div 2)) c)
         \<and> int (length (replicate (nat (L div 2)) a @ replicate (nat (L mod 2)) b
                @ replicate (nat (L div 2)) c)) = L"
proof
  show "doubleit (Lst [a, b, c]) L dflt =
          Inr (replicate (nat (L div 2)) a @ replicate (nat (L mod 2)) b
               @ replicate (nat (L div 2)) c)"
    using assms by (simp add: doubleit_def Let_def int_truediv_two py_repeat_single)
  have "0 \<le> L div 2" and "0 \<le> L mod 2" using assms by simp_all
  then have "int (nat (L div 2)) + int (nat (L mod 2)) + int (nat (L div 2)) = L"
    by simp
  then show "int (length (replicate (nat (L div 2)) a @ replicate (nat (L mod 2)) b
               @ replicate (nat (L div 2)) c)) = L"
    by simp
qed

theorem doubleit_three_witness:
  "(0::int) \<le> 5
   \<and> doubleit (Lst [''dashed'', ''dotted'', ''solid'']) 5 ''black'' =
       Inr [''dashed'', ''dashed'', ''dotted'', ''solid'', ''solid'']"
proof -
  have h: "(0::int) \<le> 5" by simp
  have "nat (5 div 2 :: int) = 2" and "nat (5 mod 2 :: int) = 1" by simp_all
  then show ?thesis
    using doubleit_three [OF h, of "''dashed''" "''dotted''" "''solid''" "''black''"]
    by (simp add: numeral_2_eq_2)
qed

section \<open>Properties of \<^verbatim>\<open>create_levels\<close>\<close>

lemma fill_levels_Inr:
  "fill_levels lc ext d = Inr r \<Longrightarrow>
     r = (lc, (if d = Some 0 then take (length lc div 2) lc @ drop (Suc (length lc div 2)) lc else lc), ext, d)
     \<and> (d = Some 0 \<longrightarrow> lc \<noteq> [])"
  by (auto simp: fill_levels_def np_delete_def split: if_splits sum.splits)

lemma fill_levels_returns:
  "d = Some 0 \<longrightarrow> lc \<noteq> [] \<Longrightarrow>
   fill_levels lc ext d =
     Inr (lc, (if d = Some 0 then take (length lc div 2) lc @ drop (Suc (length lc div 2)) lc else lc), ext, d)"
  by (auto simp: fill_levels_def np_delete_def)

lemma create_levels_inferred_Inr:
  assumes "create_levels_inferred E to_plot levels q = Inr r"
  shows "\<exists>lc ext d. infer_direction E to_plot = Inr d
           \<and> (if q < 1 then extend_of d else Inr ''neither'') = Inr ext
           \<and> fill_levels lc ext d = Inr r
           \<and> (\<forall>ls. levels = LevelsSeq ls \<longrightarrow> lc = ls)"
proof -
  from assms obtain d where d: "infer_direction E to_plot = Inr d"
    by (auto simp: create_levels_inferred_def split: sum.splits)
  from assms d obtain ext where
    ext: "(if q < 1 then extend_of d else Inr ''neither'') = Inr ext"
    by (cases "if q < 1 then extend_of d else Inr ''neither''")
       (simp_all add: create_levels_inferred_def)
  show ?thesis
  proof (cases levels)
    case (LevelsSeq ls)
    with assms d ext have "fill_levels ls ext d = Inr r"
      by (simp add: create_levels_inferred_def)
    with d ext LevelsSeq show ?thesis by blast
  next
    case LevelsNone
    with assms d ext obtain lc where "fill_levels lc ext d = Inr r"
      by (auto simp: create_levels_inferred_def Let_def split: sum.splits prod.splits)
    with d ext LevelsNone show ?thesis by blast
  next
    case (LevelsInt k)
    with assms d ext obtain lc where "fill_levels lc ext d = Inr r"
      by (auto simp: create_levels_inferred_def Let_def split: sum.splits prod.splits)
    with d ext LevelsInt show ?thesis by blast
  qed
qed

lemma create_levels_inferred_seq:
  assumes "infer_direction E to_plot = Inr d"
    and "(if q < 1 then extend_of d else Inr ''neither'') = Inr ext"
  shows "create_levels_inferred E to_plot (LevelsSeq ls) q = fill_levels ls ext d"
  using assms by (simp add: create_levels_inferred_def)

lemma create_levels_inferred_ticks:
  assumes "infer_direction E to_plot = Inr d"
    and "(if q < 1 then extend_of d else Inr ''neither'') = Inr ext"
    and "\<forall>ls. levels \<noteq> LevelsSeq ls"
    and "nanquantile E to_plot (1 - q) q = Inr (lo, hi)"
    and "tick_values E (case levels of LevelsInt k \<Rightarrow> k | _ \<Rightarrow> if d = None then 7 else 4)
           (d = Some 0) (if d = Some 1 then 0 else lo) (if d = Some (- 1) then 0 else hi) = Inr lc"
  shows "create_levels_inferred E to_plot levels q = fill_levels lc ext d"
  using assms by (cases levels) (simp_all add: create_levels_inferred_def Let_def)

lemma create_levels_not_bool:
  assumes "to_plot \<noteq> []" and "dtype (hd to_plot) \<noteq> bool_dtype"
  shows "create_levels E to_plot levels q = create_levels_inferred E to_plot levels q"
  using assms by (cases to_plot) (simp_all add: create_levels_def)

lemma sample_direction_mixed:
  "infer_direction sample_numerics [\<lparr>dtype = float_dtype, vals = [- 2, 3]\<rparr>] = Inr (Some 0)"
  by (simp add: sample_numerics_def all_vals_def)

text \<open>
  C1, as the code has it. For a non-empty list of boolean fields, whatever \<open>q\<close> and
  the \<^verbatim>\<open>levels\<close> argument are, \<^verbatim>\<open>create_levels\<close> returns the levels
  \<open>[0, 0.5, 1]\<close>, the fill levels \<open>[0, 0.5, 1]\<close>, the extend policy \<^verbatim>\<open>neither\<close>
  and the direction flag \<open>1\<close>.
\<close>

theorem create_levels_bool:
  assumes "to_plot \<noteq> []" and "\<forall>f \<in> set to_plot. dtype f = bool_dtype"
  shows "create_levels E to_plot levels q =
           Inr ([0, 0.5, 1], [0, 0.5, 1], ''neither'', Some 1)"
proof (cases to_plot)
  case Nil
  with assms(1) show ?thesis by simp
next
  case (Cons f0 rest)
  with assms(2) have "dtype f0 = bool_dtype" by simp
  with Cons show ?thesis by (simp add: create_levels_def)
qed

theorem create_levels_bool_witness:
  "[\<lparr>dtype = bool_dtype, vals = [0, 1]\<rparr>] \<noteq> []
   \<and> create_levels sample_numerics [\<lparr>dtype = bool_dtype, vals = [0, 1]\<rparr>]
        (LevelsSeq [1, 2, 3]) 0.5 =
      Inr ([0, 0.5, 1], [0, 0.5, 1], ''neither'', Some 1)"
proof -
  have h1: "[\<lparr>dtype = bool_dtype, vals = [0, 1]\<rparr>] \<noteq> []" by simp
  have h2: "\<forall>f \<in> set [\<lparr>dtype = bool_dtype, vals = [0, 1]\<rparr>]. dtype f = bool_dtype"
    by simp
  from create_levels_bool [OF h1 h2, of sample_numerics "LevelsSeq [1, 2, 3]" "0.5"] h1
  show ?thesis by blast
qed

text \<open>
  The direction flag returned for a boolean field is \<open>1\<close>, so the result is not the
  one with the flag \<open>0\<close>.
\<close>

theorem create_levels_bool_direction_counterexample:
  "create_levels sample_numerics [\<lparr>dtype = bool_dtype, vals = [0, 1]\<rparr>] LevelsNone 0.99 =
     Inr ([0, 0.5, 1], [0, 0.5, 1], ''neither'', Some 1)
   \<and> create_levels sample_numerics [\<lparr>dtype = bool_dtype, vals = [0, 1]\<rparr>] LevelsNone 0.99 \<noteq>
     Inr ([0, 0.5, 1], [0, 0.5, 1], ''neither'', Some 0)"
  by (simp add: create_levels_def)

text \<open>
  C9. For a list whose first field is not boolean and \<open>q = 1\<close>, every result of
  \<^verbatim>\<open>create_levels\<close> has the extend policy \<^verbatim>\<open>neither\<close>, whatever direction was
  inferred (\<^verbatim>\<open>None\<close> included). The call returns such a result for an explicit level
  sequence (non-empty when the direction is \<open>0\<close>), and for generated levels when
  the quantile and tick routines return (ticks non-empty when the direction is \<open>0\<close>).
\<close>

theorem create_levels_q1_neither:
  assumes "to_plot \<noteq> []" and "dtype (hd to_plot) \<noteq> bool_dtype"
  shows "(\<forall>r. create_levels E to_plot levels 1 = Inr r \<longrightarrow> fst (snd (snd r)) = ''neither'')
       \<and> (\<forall>d ls. infer_direction E to_plot = Inr d \<and> levels = LevelsSeq ls
                  \<and> (d = Some 0 \<longrightarrow> ls \<noteq> [])
             \<longrightarrow> (\<exists>lcf. create_levels E to_plot levels 1 = Inr (ls, lcf, ''neither'', d)))
       \<and> (\<forall>d lo hi lc. infer_direction E to_plot = Inr d \<and> (\<forall>ls. levels \<noteq> LevelsSeq ls)
                  \<and> nanquantile E to_plot (1 - 1) 1 = Inr (lo, hi)
                  \<and> tick_values E (case levels of LevelsInt k \<Rightarrow> k
                                     | _ \<Rightarrow> if d = None then 7 else 4)
                       (d = Some 0) (if d = Some 1 then 0 else lo)
                       (if d = Some (- 1) then 0 else hi) = Inr lc
                  \<and> (d = Some 0 \<longrightarrow> lc \<noteq> [])
             \<longrightarrow> (\<exists>lcf. create_levels E to_plot levels 1 = Inr (lc, lcf, ''neither'', d)))"
proof (intro conjI allI impI)
  fix r
  assume "create_levels E to_plot levels 1 = Inr r"
  with assms have "create_levels_inferred E to_plot levels 1 = Inr r"
    by (simp add: create_levels_not_bool)
  from create_levels_inferred_Inr [OF this] obtain lc ext d where
    ext: "(if (1::real) < 1 then extend_of d else Inr ''neither'') = Inr ext"
    and fl: "fill_levels lc ext d = Inr r"
    by blast
  from ext have "ext = ''neither''" by simp
  with fill_levels_Inr [OF fl] show "fst (snd (snd r)) = ''neither''" by simp
next
  fix d ls
  assume a: "infer_direction E to_plot = Inr d \<and> levels = LevelsSeq ls
               \<and> (d = Some 0 \<longrightarrow> ls \<noteq> [])"
  have e: "(if (1::real) < 1 then extend_of d else Inr ''neither'') = Inr ''neither''" by simp
  from a have "create_levels_inferred E to_plot levels 1 = fill_levels ls ''neither'' d"
    using create_levels_inferred_seq [OF _ e] by simp
  with a assms fill_levels_returns [of d ls "''neither''"]
  show "\<exists>lcf. create_levels E to_plot levels 1 = Inr (ls, lcf, ''neither'', d)"
    by (simp add: create_levels_not_bool)
next
  fix d lo hi lc
  assume a: "infer_direction E to_plot = Inr d \<and> (\<forall>ls. levels \<noteq> LevelsSeq ls)
               \<and> nanquantile E to_plot (1 - 1) 1 = Inr (lo, hi)
               \<and> tick_values E (case levels of LevelsInt k \<Rightarrow> k
                                  | _ \<Rightarrow> if d = None then 7 else 4)
                    (d = Some 0) (if d = Some 1 then 0 else lo)
                    (if d = Some (- 1) then 0 else hi) = Inr lc
               \<and> (d = Some 0 \<longrightarrow> lc \<noteq> [])"
  have e: "(if (1::real) < 1 then extend_of d else Inr ''neither'') = Inr ''neither''" by simp
  from a have "create_levels_inferred E to_plot levels 1 = fill_levels lc ''neither'' d"
    using create_levels_inferred_ticks [OF _ e, of E to_plot levels lo hi lc] by blast
  with a assms fill_levels_returns [of d lc "''neither''"]
  show "\<exists>lcf. create_levels E to_plot levels 1 = Inr (lc, lcf, ''neither'', d)"
    by (simp add: create_levels_not_bool)
qed

theorem create_levels_q1_neither_witness:
  "[\<lparr>dtype = float_dtype, vals = [- 2, 3]\<rparr>] \<noteq> []
   \<and> dtype (hd [\<lparr>dtype = float_dtype, vals = [- 2, 3]\<rparr>]) \<noteq> bool_dtype
   \<and> create_levels sample_numerics [\<lparr>dtype = float_dtype, vals = [- 2, 3]\<rparr>]
        (LevelsSeq [1, 2, 3]) 1 = Inr ([1, 2, 3], [1, 3], ''neither'', Some 0)
   \<and> fst (snd (snd ([1, 2, 3 :: real], [1, 3 :: real], ''neither'', Some (0::int)))) = ''neither''"
proof -
  let ?tp = "[\<lparr>dtype = float_dtype, vals = [- 2, 3]\<rparr>]"
  have h1: "?tp \<noteq> []" by simp
  have h2: "dtype (hd ?tp) \<noteq> bool_dtype" by simp
  have r: "create_levels sample_numerics ?tp (LevelsSeq [1, 2, 3]) 1 =
             Inr ([1, 2, 3], [1, 3], ''neither'', Some 0)"
    by (simp add: create_levels_def create_levels_inferred_def sample_numerics_def
          all_vals_def extend_of_def fill_levels_def np_delete_def numeral_3_eq_3)
  from create_levels_q1_neither [OF h1 h2, of sample_numerics "LevelsSeq [1, 2, 3]"] r
  have "fst (snd (snd ([1, 2, 3 :: real], [1, 3 :: real], ''neither'', Some (0::int)))) = ''neither''"
    by blast
  with h1 h2 r show ?thesis by blast
qed

text \<open>
  C3. When the direction inferred for a non-boolean input is \<open>0\<close>, every result of
  \<^verbatim>\<open>create_levels\<close> has a fill-level sequence one element shorter than the full
  level sequence: the full sequence without its element at index
  \<open>length levels div 2\<close>. This holds for an explicit level sequence, which is returned
  as the full sequence, and for generated levels; the call returns whenever the
  sequence is non-empty.
\<close>

theorem create_levels_symmetric_fill:
  assumes "to_plot \<noteq> []" and "dtype (hd to_plot) \<noteq> bool_dtype"
    and "infer_direction E to_plot = Inr (Some 0)"
  shows "(\<forall>lc lcf ext d. create_levels E to_plot levels q = Inr (lc, lcf, ext, d) \<longrightarrow>
            d = Some 0 \<and> length lcf + 1 = length lc
            \<and> lcf = take (length lc div 2) lc @ drop (Suc (length lc div 2)) lc
            \<and> (\<forall>ls. levels = LevelsSeq ls \<longrightarrow> lc = ls))
       \<and> (\<forall>ls. levels = LevelsSeq ls \<and> ls \<noteq> []
             \<longrightarrow> (\<exists>lcf ext. create_levels E to_plot levels q = Inr (ls, lcf, ext, Some 0)))
       \<and> (\<forall>lo hi lc. (\<forall>ls. levels \<noteq> LevelsSeq ls)
                  \<and> nanquantile E to_plot (1 - q) q = Inr (lo, hi)
                  \<and> tick_values E (case levels of LevelsInt k \<Rightarrow> k | _ \<Rightarrow> 4) True lo hi = Inr lc
                  \<and> lc \<noteq> []
             \<longrightarrow> (\<exists>lcf ext. create_levels E to_plot levels q = Inr (lc, lcf, ext, Some 0)))"
proof (intro conjI allI impI)
  fix lc lcf ext d
  assume "create_levels E to_plot levels q = Inr (lc, lcf, ext, d)"
  with assms have "create_levels_inferred E to_plot levels q = Inr (lc, lcf, ext, d)"
    by (simp add: create_levels_not_bool)
  from create_levels_inferred_Inr [OF this] assms(3) obtain lc' ext' where
    fl: "fill_levels lc' ext' (Some 0) = Inr (lc, lcf, ext, d)"
    and ls: "\<forall>ls. levels = LevelsSeq ls \<longrightarrow> lc' = ls"
    by auto
  from fill_levels_Inr [OF fl] have eq: "lc' = lc" "d = Some 0"
    "lcf = take (length lc div 2) lc @ drop (Suc (length lc div 2)) lc" "lc \<noteq> []"
    by simp_all
  from \<open>lc \<noteq> []\<close> have "length lc div 2 < length lc" by simp
  then have len: "length (take (length lc div 2) lc @ drop (Suc (length lc div 2)) lc) + 1
               = length lc"
    by simp
  show "d = Some 0" by (rule eq(2))
  show "length lcf + 1 = length lc" using len eq(3) by simp
  show "lcf = take (length lc div 2) lc @ drop (Suc (length lc div 2)) lc" by (rule eq(3))
  fix ls assume "levels = LevelsSeq ls"
  with ls eq(1) show "lc = ls" by simp
next
  fix ls
  assume a: "levels = LevelsSeq ls \<and> ls \<noteq> []"
  have "\<exists>ext. (if q < 1 then extend_of (Some 0) else Inr ''neither'') = Inr ext"
    by (simp add: extend_of_def)
  then obtain ext where e: "(if q < 1 then extend_of (Some 0) else Inr ''neither'') = Inr ext"
    by blast
  from a assms(3) have "create_levels_inferred E to_plot levels q = fill_levels ls ext (Some 0)"
    using create_levels_inferred_seq [OF _ e] by simp
  with a assms fill_levels_returns [of "Some 0" ls ext]
  show "\<exists>lcf ext. create_levels E to_plot levels q = Inr (ls, lcf, ext, Some 0)"
    by (simp add: create_levels_not_bool)
next
  fix lo hi lc
  assume a: "(\<forall>ls. levels \<noteq> LevelsSeq ls)
               \<and> nanquantile E to_plot (1 - q) q = Inr (lo, hi)
               \<and> tick_values E (case levels of LevelsInt k \<Rightarrow> k | _ \<Rightarrow> 4) True lo hi = Inr lc
               \<and> lc \<noteq> []"
  have "\<exists>ext. (if q < 1 then extend_of (Some 0) else Inr ''neither'') = Inr ext"
    by (simp add: extend_of_def)
  then obtain ext where e: "(if q < 1 then extend_of (Some 0) else Inr ''neither'') = Inr ext"
    by blast
  from a have "tick_values E (case levels of LevelsInt k \<Rightarrow> k
                               | _ \<Rightarrow> if Some (0::int) = None then 7 else 4)
                 (Some (0::int) = Some 0) (if Some (0::int) = Some 1 then 0 else lo)
                 (if Some (0::int) = Some (- 1) then 0 else hi) = Inr lc"
    by simp
  with a assms(3)
  have "create_levels_inferred E to_plot levels q = fill_levels lc ext (Some 0)"
    using create_levels_inferred_ticks [OF _ e, of E to_plot levels lo hi lc] by blast
  with a assms fill_levels_returns [of "Some 0" lc ext]
  show "\<exists>lcf ext. create_levels E to_plot levels q = Inr (lc, lcf, ext, Some 0)"
    by (simp add: create_levels_not_bool)
qed

theorem create_levels_symmetric_fill_witness:
  "[\<lparr>dtype = float_dtype, vals = [- 2, 3]\<rparr>] \<noteq> []
   \<and> dtype (hd [\<lparr>dtype = float_dtype, vals = [- 2, 3]\<rparr>]) \<noteq> bool_dtype
   \<and> infer_direction sample_numerics [\<lparr>dtype = float_dtype, vals = [- 2, 3]\<rparr>] = Inr (Some 0)
   \<and> create_levels sample_numerics [\<lparr>dtype = float_dtype, vals = [- 2, 3]\<rparr>]
        (LevelsSeq [- 1, 0, 1, 2]) 0.99 = Inr ([- 1, 0, 1, 2], [- 1, 0, 2], ''both'', Some 0)
   \<and> length [- 1, 0, 2 :: real] + 1 = length [- 1, 0, 1, 2 :: real]"
proof -
  let ?tp = "[\<lparr>dtype = float_dtype, vals = [- 2, 3]\<rparr>]"
  have h1: "?tp \<noteq> []" by simp
  have h2: "dtype (hd ?tp) \<noteq> bool_dtype" by simp
  note h3 = sample_direction_mixed
  have r: "create_levels sample_numerics ?tp (LevelsSeq [- 1, 0, 1, 2]) 0.99 =
             Inr ([- 1, 0, 1, 2], [- 1, 0, 2], ''both'', Some 0)"
    by (simp add: create_levels_def create_levels_inferred_def sample_numerics_def
          all_vals_def extend_of_def fill_levels_def np_delete_def)
  from create_levels_symmetric_fill [OF h1 h2 h3, of "LevelsSeq [- 1, 0, 1, 2]" "0.99"] r
  have "length [- 1, 0, 2 :: real] + 1 = length [- 1, 0, 1, 2 :: real]" by blast
  with h1 h2 h3 r show ?thesis by blast
qed

text \<open>
  C10. Only the dtype of the first field decides the branch: a list whose first field
  is boolean gets the fixed result whatever the later fields are, and a list whose
  first field is not boolean goes through the inference whatever the later fields are.
\<close>

theorem create_levels_first_dtype:
  "(dtype f = bool_dtype \<longrightarrow>
      create_levels E (f # rest) levels q = Inr ([0, 0.5, 1], [0, 0.5, 1], ''neither'', Some 1))
   \<and> (dtype f \<noteq> bool_dtype \<longrightarrow>
      create_levels E (f # rest) levels q = create_levels_inferred E (f # rest) levels q)"
  by (simp add: create_levels_def)

theorem create_levels_first_dtype_witness:
  "dtype \<lparr>dtype = bool_dtype, vals = [0, 1]\<rparr> = bool_dtype
   \<and> create_levels sample_numerics
        [\<lparr>dtype = bool_dtype, vals = [0, 1]\<rparr>, \<lparr>dtype = float_dtype, vals = [- 2, 3]\<rparr>]
        LevelsNone 0.99 = Inr ([0, 0.5, 1], [0, 0.5, 1], ''neither'', Some 1)
   \<and> dtype \<lparr>dtype = float_dtype, vals = [- 2, 3]\<rparr> \<noteq> bool_dtype
   \<and> create_levels sample_numerics
        [\<lparr>dtype = float_dtype, vals = [- 2, 3]\<rparr>, \<lparr>dtype = bool_dtype, vals = [0, 1]\<rparr>]
        LevelsNone 0.99 = Inr ([- 2, 0.5, 3], [- 2, 3], ''both'', Some 0)"
proof -
  have b: "dtype \<lparr>dtype = bool_dtype, vals = [0, 1]\<rparr> = bool_dtype" by simp
  have c: "dtype \<lparr>dtype = float_dtype, vals = [- 2, 3]\<rparr> \<noteq> bool_dtype" by simp
  have i: "create_levels_inferred sample_numerics
        [\<lparr>dtype = float_dtype, vals = [- 2, 3]\<rparr>, \<lparr>dtype = bool_dtype, vals = [0, 1]\<rparr>]
        LevelsNone 0.99 = Inr ([- 2, 0.5, 3], [- 2, 3], ''both'', Some 0)"
    by (simp add: create_levels_inferred_def sample_numerics_def
          all_vals_def extend_of_def fill_levels_def np_delete_def numeral_3_eq_3)
  from b c i
    create_levels_first_dtype [of "\<lparr>dtype = bool_dtype, vals = [0, 1]\<rparr>" sample_numerics
      "[\<lparr>dtype = float_dtype, vals = [- 2, 3]\<rparr>]" LevelsNone "0.99"]
    create_levels_first_dtype [of "\<lparr>dtype = float_dtype, vals = [- 2, 3]\<rparr>" sample_numerics
      "[\<lparr>dtype = bool_dtype, vals = [0, 1]\<rparr>]" LevelsNone "0.99"]
  show ?thesis by simp
qed

section \<open>Properties of \<^verbatim>\<open>make_transparent\<close>\<close>

lemma length_set_alpha [simp]: "length (set_alpha start stop v cs) = length cs"
  by (simp add: set_alpha_def Let_def)

lemma nth_set_alpha:
  "i < length cs \<Longrightarrow>
   set_alpha start stop v cs ! i =
     (if (case start of None \<Rightarrow> 0 | Some s \<Rightarrow> slice_bound (length cs) s) \<le> i
         \<and> i < (case stop of None \<Rightarrow> length cs | Some s \<Rightarrow> slice_bound (length cs) s)
      then (cs ! i)\<lparr>alpha := v\<rparr> else cs ! i)"
  by (simp add: set_alpha_def Let_def nth_enumerate_eq)

lemma ceiling_half: "\<lceil>real_of_int n / 2\<rceil> = (n + 1) div 2"
  by linarith


lemma np_linspace_Inr:
  "0 \<le> num \<Longrightarrow> \<exists>xs. np_linspace a b num = Inr xs \<and> length xs = nat num"
  by (simp add: np_linspace_def)

lemma slice_bound_nonneg: "0 \<le> i \<Longrightarrow> slice_bound n i = nat (min (int n) i)"
  by (simp add: slice_bound_def)

lemma slice_bound_neg: "i < 0 \<Longrightarrow> - int n \<le> i \<Longrightarrow> slice_bound n i = nat (int n + i)"
  by (simp add: slice_bound_def add.commute)

lemma make_transparent_unfold:
  assumes "lookup_cmap registry cmap = Inr cm"
    and "np_linspace 0 1 (nlev + (if direction = 0 then 1 else 0)) = Inr xs"
  shows "make_transparent registry cmap (Some nlev) ao nt direction =
     (if direction = 0 then
        Inr (set_alpha None (Some (\<lceil>real_of_int nlev / 2\<rceil> - nt + 1)) ao
              (set_alpha (Some (\<lceil>real_of_int nlev / 2\<rceil> + nt)) None ao
                (set_alpha (Some (\<lceil>real_of_int nlev / 2\<rceil> - nt + 1))
                   (Some (\<lceil>real_of_int nlev / 2\<rceil> + nt)) 0 (map (rgba_at cm) xs))))
      else if direction = 1 then
        Inr (set_alpha (Some nt) None ao (set_alpha None (Some nt) 0 (map (rgba_at cm) xs)))
      else
        Inr (set_alpha None (Some (- nt)) ao
              (set_alpha (Some (- nt)) None 0 (map (rgba_at cm) xs))))"
  using assms by (simp add: make_transparent_def Let_def)

lemma alpha_low:
  assumes "0 \<le> nt" and "nt \<le> int (length cs)" and "i < length cs"
  shows "set_alpha (Some nt) None ao (set_alpha None (Some nt) 0 cs) ! i =
           (cs ! i)\<lparr>alpha := if 0 \<le> i \<and> i < nat nt then 0 else ao\<rparr>"
  using assms by (simp add: nth_set_alpha slice_bound_nonneg min_def)

lemma alpha_high:
  assumes "1 \<le> nt" and "nt \<le> int (length cs)" and "i < length cs"
  shows "set_alpha None (Some (- nt)) ao (set_alpha (Some (- nt)) None 0 cs) ! i =
           (cs ! i)\<lparr>alpha := if nat (int (length cs) - nt) \<le> i \<and> i < length cs
                               then 0 else ao\<rparr>"
  using assms by (simp add: nth_set_alpha slice_bound_neg)

lemma alpha_center:
  assumes "0 \<le> a" and "a \<le> b" and "i < length cs"
  shows "set_alpha None (Some a) ao
           (set_alpha (Some b) None ao (set_alpha (Some a) (Some b) 0 cs)) ! i =
           (cs ! i)\<lparr>alpha := if nat a \<le> i \<and> i < nat (min (int (length cs)) b)
                               then 0 else ao\<rparr>"
  using assms by (auto simp add: nth_set_alpha slice_bound_nonneg min_def)


text \<open>
  C2, as the code has it. For a colormap, \<open>nlev \<ge> 1\<close>, \<open>1 \<le> n_transparent \<le> nlev\<close>
  and a direction in \<open>{-1, 0, 1}\<close>, \<^verbatim>\<open>make_transparent\<close> returns the colours sampled
  at \<open>nlev\<close> positions (\<open>nlev + 1\<close> for direction \<open>0\<close>) in which the alpha of the
  contiguous rows \<open>lo \<le> i < hi\<close> is zero and the alpha of every other row is
  \<^verbatim>\<open>alpha_others\<close>. For direction \<open>1\<close> these are the \<open>n_transparent\<close> lowest rows,
  for direction \<open>-1\<close> the \<open>n_transparent\<close> highest. For direction \<open>0\<close>, with
  \<open>n_transparent \<le> midpoint + 1\<close> where \<open>midpoint = ceil (nlev / 2)\<close>, they are the
  rows \<open>midpoint - n_transparent < i < midpoint + n_transparent\<close> up to the last row:
  \<open>2 * n_transparent - 1\<close> rows centred on the midpoint, cut at the upper end.
\<close>

theorem make_transparent_alpha:
  assumes cm: "lookup_cmap registry cmap = Inr cm"
    and nlev: "1 \<le> nlev" and nt1: "1 \<le> n_transparent" and nt2: "n_transparent \<le> nlev"
    and dir: "direction = 1 \<or> direction = - 1
              \<or> (direction = 0 \<and> n_transparent \<le> \<lceil>real_of_int nlev / 2\<rceil> + 1)"
  shows "\<exists>cs xs lo hi.
      make_transparent registry cmap (Some nlev) alpha_others n_transparent direction = Inr cs
    \<and> np_linspace 0 1 (nlev + (if direction = 0 then 1 else 0)) = Inr xs
    \<and> length xs = length cs
    \<and> int (length cs) = nlev + (if direction = 0 then 1 else 0)
    \<and> int lo = (if direction = 1 then 0
                else if direction = - 1 then nlev - n_transparent
                else \<lceil>real_of_int nlev / 2\<rceil> - n_transparent + 1)
    \<and> int hi = (if direction = 1 then n_transparent
                else if direction = - 1 then nlev
                else min (\<lceil>real_of_int nlev / 2\<rceil> + n_transparent) (nlev + 1))
    \<and> lo < hi \<and> hi \<le> length cs
    \<and> int (hi - lo) = (if direction = 0
                        then min (2 * n_transparent - 1)
                               (nlev - \<lceil>real_of_int nlev / 2\<rceil> + n_transparent)
                        else n_transparent)
    \<and> (\<forall>i < length cs.
          cs ! i = (rgba_at cm (xs ! i))\<lparr>alpha := if lo \<le> i \<and> i < hi then 0 else alpha_others\<rparr>)"
proof -
  let ?n = "nlev + (if direction = 0 then 1 else 0)"
  let ?m = "\<lceil>real_of_int nlev / 2\<rceil>"
  have m: "?m = (nlev + 1) div 2" by (rule ceiling_half)
  from nlev have "0 \<le> ?n" by simp
  from np_linspace_Inr [OF this] obtain xs where
    xs: "np_linspace 0 1 ?n = Inr xs" and lxs: "length xs = nat ?n"
    by blast
  let ?cl = "map (rgba_at cm) xs"
  have lcl: "int (length ?cl) = ?n" using lxs \<open>0 \<le> ?n\<close> by simp
  note mt = make_transparent_unfold [OF cm xs, of alpha_others n_transparent]
  from dir consider (low) "direction = 1" | (high) "direction = - 1"
    | (center) "direction = 0" "n_transparent \<le> ?m + 1"
    by blast
  then show ?thesis
  proof cases
    case low
    let ?cs = "set_alpha (Some n_transparent) None alpha_others
                 (set_alpha None (Some n_transparent) 0 ?cl)"
    have nth: "\<forall>i < length ?cs. ?cs ! i =
        (rgba_at cm (xs ! i))\<lparr>alpha := if 0 \<le> i \<and> i < nat n_transparent then 0 else alpha_others\<rparr>"
      using alpha_low [of n_transparent ?cl _ alpha_others] nt1 nt2 lcl low by simp
    have "make_transparent registry cmap (Some nlev) alpha_others n_transparent direction = Inr ?cs"
      using mt low by simp
    moreover have "length xs = length ?cs" by simp
    moreover have "int (length ?cs) = ?n" using lcl by simp
    moreover have "int 0 = (if direction = 1 then 0
                else if direction = - 1 then nlev - n_transparent
                else ?m - n_transparent + 1)" using low by simp
    moreover have "int (nat n_transparent) = (if direction = 1 then n_transparent
                else if direction = - 1 then nlev
                else min (?m + n_transparent) (nlev + 1))" using low nt1 by simp
    moreover have "0 < nat n_transparent" using nt1 by simp
    moreover have "nat n_transparent \<le> length ?cs" using nt2 lcl low by simp
    moreover have "int (nat n_transparent - 0) = (if direction = 0
                        then min (2 * n_transparent - 1) (nlev - ?m + n_transparent)
                        else n_transparent)" using low nt1 by simp
    ultimately show ?thesis using xs nth by blast
  next
    case high
    let ?cs = "set_alpha None (Some (- n_transparent)) alpha_others
                 (set_alpha (Some (- n_transparent)) None 0 ?cl)"
    have len: "length ?cl = nat nlev" using lxs high by simp
    have nth: "\<forall>i < length ?cs. ?cs ! i =
        (rgba_at cm (xs ! i))\<lparr>alpha := if nat (nlev - n_transparent) \<le> i \<and> i < nat nlev
                                        then 0 else alpha_others\<rparr>"
      using alpha_high [of n_transparent ?cl _ alpha_others] nt1 nt2 nlev len by simp
    have "make_transparent registry cmap (Some nlev) alpha_others n_transparent direction = Inr ?cs"
      using mt high by simp
    moreover have "length xs = length ?cs" by simp
    moreover have "int (length ?cs) = ?n" using lcl by simp
    moreover have "int (nat (nlev - n_transparent)) = (if direction = 1 then 0
                else if direction = - 1 then nlev - n_transparent
                else ?m - n_transparent + 1)" using high nt2 by simp
    moreover have "int (nat nlev) = (if direction = 1 then n_transparent
                else if direction = - 1 then nlev
                else min (?m + n_transparent) (nlev + 1))" using high nlev by simp
    moreover have "nat (nlev - n_transparent) < nat nlev" using nt1 nt2 by simp
    moreover have "nat nlev \<le> length ?cs" using len by simp
    moreover have "int (nat nlev - nat (nlev - n_transparent)) = (if direction = 0
                        then min (2 * n_transparent - 1) (nlev - ?m + n_transparent)
                        else n_transparent)" using high nt1 nt2 by simp
    ultimately show ?thesis using xs nth by blast
  next
    case center
    let ?a = "?m - n_transparent + 1" and ?b = "?m + n_transparent"
    let ?cs = "set_alpha None (Some ?a) alpha_others
                 (set_alpha (Some ?b) None alpha_others (set_alpha (Some ?a) (Some ?b) 0 ?cl))"
    have len: "length ?cl = nat (nlev + 1)" using lxs center by simp
    have a0: "0 \<le> ?a" using center by simp
    have ab: "?a < ?b" using nt1 by simp
    have mle: "?m \<le> nlev" using nlev m by simp
    have nth: "\<forall>i < length ?cs. ?cs ! i =
        (rgba_at cm (xs ! i))\<lparr>alpha := if nat ?a \<le> i \<and> i < nat (min ?b (nlev + 1))
                                        then 0 else alpha_others\<rparr>"
    proof (intro allI impI)
      fix i assume "i < length ?cs"
      then have i: "i < length ?cl" by simp
      have "int (length ?cl) = nlev + 1" using len nlev by simp
      then have "min (int (length ?cl)) ?b = min ?b (nlev + 1)" by simp
      with alpha_center [OF a0 _ i, of ?b alpha_others] ab i
      show "?cs ! i = (rgba_at cm (xs ! i))\<lparr>alpha := if nat ?a \<le> i \<and> i < nat (min ?b (nlev + 1))
                                        then 0 else alpha_others\<rparr>"
        by simp
    qed
    have "make_transparent registry cmap (Some nlev) alpha_others n_transparent direction = Inr ?cs"
      using mt center by simp
    moreover have "length xs = length ?cs" by simp
    moreover have "int (length ?cs) = ?n" using lcl by simp
    moreover have "int (nat ?a) = (if direction = 1 then 0
                else if direction = - 1 then nlev - n_transparent
                else ?m - n_transparent + 1)" using center a0 by simp
    moreover have "int (nat (min ?b (nlev + 1))) = (if direction = 1 then n_transparent
                else if direction = - 1 then nlev
                else min (?m + n_transparent) (nlev + 1))" using center nlev nt1 a0 by simp
    moreover have "nat ?a < nat (min ?b (nlev + 1))" using a0 ab mle nt1 by simp
    moreover have "nat (min ?b (nlev + 1)) \<le> length ?cs" using len by simp
    moreover have "int (nat (min ?b (nlev + 1)) - nat ?a) = (if direction = 0
                        then min (2 * n_transparent - 1) (nlev - ?m + n_transparent)
                        else n_transparent)" using center a0 ab mle nt1 by (simp add: min_def)
    ultimately show ?thesis using xs nth by blast
  qed
qed


lemma grey_center_eval:
  "make_transparent Map.empty (CmapObj grey_cmap) (Some 4) (1 / 2) 2 0 =
     Inr [\<lparr>red = 0, green = 0, blue = 0, alpha = 1 / 2\<rparr>,
          \<lparr>red = 1 / 4, green = 1 / 4, blue = 1 / 4, alpha = 0\<rparr>,
          \<lparr>red = 1 / 2, green = 1 / 2, blue = 1 / 2, alpha = 0\<rparr>,
          \<lparr>red = 3 / 4, green = 3 / 4, blue = 3 / 4, alpha = 0\<rparr>,
          \<lparr>red = 1, green = 1, blue = 1, alpha = 1 / 2\<rparr>]"
  by code_simp

text \<open>
  With four levels, \<open>n_transparent = 2\<close> and direction \<open>0\<close>, three of the five rows
  have alpha zero, not two.
\<close>

theorem make_transparent_center_counterexample:
  "map_sum id (map alpha) (make_transparent Map.empty (CmapObj grey_cmap) (Some 4) 1 2 0) =
     Inr [1, 0, 0, 0, 1]"
  by code_simp

theorem make_transparent_alpha_witness:
  "lookup_cmap Map.empty (CmapObj grey_cmap) = Inr grey_cmap
   \<and> (1::int) \<le> 4 \<and> (1::int) \<le> 2 \<and> (2::int) \<le> 4
   \<and> ((0::int) = 1 \<or> (0::int) = - 1 \<or> ((0::int) = 0 \<and> (2::int) \<le> \<lceil>real_of_int 4 / 2\<rceil> + 1))
   \<and> make_transparent Map.empty (CmapObj grey_cmap) (Some 4) (1 / 2) 2 0 =
       Inr [\<lparr>red = 0, green = 0, blue = 0, alpha = 1 / 2\<rparr>,
            \<lparr>red = 1 / 4, green = 1 / 4, blue = 1 / 4, alpha = 0\<rparr>,
            \<lparr>red = 1 / 2, green = 1 / 2, blue = 1 / 2, alpha = 0\<rparr>,
            \<lparr>red = 3 / 4, green = 3 / 4, blue = 3 / 4, alpha = 0\<rparr>,
            \<lparr>red = 1, green = 1, blue = 1, alpha = 1 / 2\<rparr>]"
proof -
  have h0: "lookup_cmap Map.empty (CmapObj grey_cmap) = Inr grey_cmap"
    by (simp add: lookup_cmap_def)
  have h1: "(1::int) \<le> 4" and h2: "(1::int) \<le> 2" and h3: "(2::int) \<le> 4" by simp_all
  have h4: "(0::int) = 1 \<or> (0::int) = - 1
            \<or> ((0::int) = 0 \<and> (2::int) \<le> \<lceil>real_of_int 4 / 2\<rceil> + 1)"
    by simp
  from make_transparent_alpha [OF h0 h1 h2 h3 h4, of "1 / 2"]
  obtain cs where "make_transparent Map.empty (CmapObj grey_cmap) (Some 4) (1 / 2) 2 0 = Inr cs"
    and "int (length cs) = 4 + (if (0::int) = 0 then 1 else 0)"
    by blast
  with grey_center_eval h0 h1 h2 h3 h4 show ?thesis by simp
qed

section \<open>Properties of \<^verbatim>\<open>cluster_on_fig\<close>\<close>

lemma length_newcs: "length (newcs dx dy c) = 9"
  by (simp add: newcs_def)

lemma tile_loop_eq:
  "tile_loop dx dy ps (cs, ls) =
     (cs @ concat (map (\<lambda>p. newcs dx dy (fst p)) ps),
      ls @ concat (map (\<lambda>p. replicate 9 (snd p)) ps))"
  by (induction ps arbitrary: cs ls)
     (auto simp: length_newcs py_repeat_single)

lemma tile_loop_zip:
  assumes "length ls = length cs"
  shows "tile_loop dx dy (zip cs ls) (cs, ls) =
     (cs @ concat (map (newcs dx dy) cs), ls @ concat (map (replicate 9) ls))"
proof -
  have "map (\<lambda>p. newcs dx dy (fst p)) (zip cs ls) = map (newcs dx dy) (map fst (zip cs ls))"
    by simp
  moreover have "map (\<lambda>p. replicate 9 (snd p)) (zip cs ls) = map (replicate 9) (map snd (zip cs ls))"
    by simp
  ultimately show ?thesis using assms
    by (simp only: tile_loop_eq map_fst_zip map_snd_zip)
qed

lemma length_concat_const:
  "(\<And>x. length (f x) = k) \<Longrightarrow> length (concat (map f xs)) = k * length xs"
  by (induction xs) simp_all



lemma py_index_nat: "0 \<le> i \<Longrightarrow> i < int (length xs) \<Longrightarrow> py_index xs i = Inr (xs ! nat i)"
  by (simp add: py_index_def)

lemma newcs_explicit:
  "newcs dx dy (x, y) =
     [(x - dx / 2.01, y - dy / 2.01), (x - dx / 2.01, y), (x - dx / 2.01, y + dy / 2.01),
      (x, y - dy / 2.01), (x, y), (x, y + dy / 2.01),
      (x + dx / 2.01, y - dy / 2.01), (x + dx / 2.01, y), (x + dx / 2.01, y + dy / 2.01)]"
  by (simp add: newcs_def)

text \<open>
  C4, as the code has it. For \<open>N \<ge> 3\<close> panel points with their labels and a row
  count inside the array, the tiled cloud is the original points followed, for each
  original point in turn, by its nine copies shifted by \<open>sgnx * dx / 2.01\<close> and
  \<open>sgny * dy / 2.01\<close> for \<open>sgnx\<close> and \<open>sgny\<close> in \<open>{-1, 0, 1}\<close>: the eight
  neighbours and one copy that is not shifted. The labels are the original labels
  followed by every label nine times, so each copy carries the label of its point,
  and both arrays have \<open>10 * N\<close> entries.
\<close>

theorem tile_coords_cloud:
  assumes "length clu_labs = length coords" and "3 \<le> length coords"
    and "0 \<le> nr" and "nr < int (length coords)"
  shows "let dx = fst (coords ! nat nr) - fst (coords ! 0);
             dy = (snd (coords ! 2) - snd (coords ! 0)) / 2
         in tile_coords nr coords clu_labs =
              Inr (coords @ concat (map (newcs dx dy) coords),
                   clu_labs @ concat (map (replicate 9) clu_labs))
            \<and> length (coords @ concat (map (newcs dx dy) coords)) = 10 * length coords
            \<and> length (clu_labs @ concat (map (replicate 9) clu_labs)) = 10 * length coords
            \<and> (\<forall>x y. newcs dx dy (x, y) =
                 [(x - dx / 2.01, y - dy / 2.01), (x - dx / 2.01, y),
                  (x - dx / 2.01, y + dy / 2.01),
                  (x, y - dy / 2.01), (x, y), (x, y + dy / 2.01),
                  (x + dx / 2.01, y - dy / 2.01), (x + dx / 2.01, y),
                  (x + dx / 2.01, y + dy / 2.01)])"
proof -
  define dx where "dx = fst (coords ! nat nr) - fst (coords ! 0)"
  define dy where "dy = (snd (coords ! 2) - snd (coords ! 0)) / 2"
  have i0: "py_index coords 0 = Inr (coords ! 0)"
    using assms(2) by (auto simp: py_index_def)
  have i2: "py_index coords 2 = Inr (coords ! 2)"
    using assms(2) by (auto simp: py_index_def)
  have inr: "py_index coords nr = Inr (coords ! nat nr)"
    using assms(3,4) by (rule py_index_nat)
  have t: "tile_coords nr coords clu_labs =
      Inr (coords @ concat (map (newcs dx dy) coords),
           clu_labs @ concat (map (replicate 9) clu_labs))"
    using assms(1) by (simp add: tile_coords_def i0 i2 inr Let_def tile_loop_zip dx_def dy_def)
  have l1: "length (concat (map (newcs dx dy) coords)) = 9 * length coords"
    by (rule length_concat_const) (rule length_newcs)
  have l2: "length (concat (map (replicate 9) clu_labs)) = 9 * length clu_labs"
    by (rule length_concat_const) simp
  from t l1 l2 assms(1) show ?thesis
    unfolding Let_def dx_def [symmetric] dy_def [symmetric]
    by (simp add: newcs_explicit)
qed

lemma tile_sample_eval:
  "tile_coords 1 [(0, 0), (1, 0), (0, 2)] [0, 1, - 1] =
     Inr ([(0, 0), (1, 0), (0, 2)] @ concat (map (newcs 1 1) [(0, 0), (1, 0), (0, 2)]),
          [0, 1, - 1, 0, 0, 0, 0, 0, 0, 0, 0, 0, 1, 1, 1, 1, 1, 1, 1, 1, 1,
           - 1, - 1, - 1, - 1, - 1, - 1, - 1, - 1, - 1])"
  by code_simp

theorem tile_coords_cloud_witness:
  "length [0, 1, - 1 :: int] = length [(0, 0), (1, 0), (0, 2 :: real) :: point]
   \<and> 3 \<le> length [(0, 0), (1, 0), (0, 2 :: real) :: point]
   \<and> (0::int) \<le> 1 \<and> (1::int) < int (length [(0, 0), (1, 0), (0, 2 :: real) :: point])
   \<and> tile_coords 1 [(0, 0), (1, 0), (0, 2)] [0, 1, - 1] =
       Inr ([(0, 0), (1, 0), (0, 2)] @ concat (map (newcs 1 1) [(0, 0), (1, 0), (0, 2)]),
            [0, 1, - 1, 0, 0, 0, 0, 0, 0, 0, 0, 0, 1, 1, 1, 1, 1, 1, 1, 1, 1,
             - 1, - 1, - 1, - 1, - 1, - 1, - 1, - 1, - 1])
   \<and> length ([(0, 0), (1, 0), (0, 2)] @ concat (map (newcs 1 1) [(0, 0), (1, 0), (0, 2)])) = 30"
proof -
  let ?cs = "[(0, 0), (1, 0), (0, 2 :: real) :: point]"
  have h1: "length [0, 1, - 1 :: int] = length ?cs" by simp
  have h2: "3 \<le> length ?cs" by simp
  have h3: "(0::int) \<le> 1" by simp
  have h4: "(1::int) < int (length ?cs)" by simp
  have dx: "fst (?cs ! nat 1) - fst (?cs ! 0) = 1" by simp
  have dy: "(snd (?cs ! 2) - snd (?cs ! 0)) / 2 = 1" by simp
  from tile_coords_cloud [OF h1 h2 h3 h4]
  have "length (?cs @ concat (map (newcs 1 1) ?cs)) = 10 * length ?cs"
    unfolding Let_def dx dy by blast
  then have "length (?cs @ concat (map (newcs 1 1) ?cs)) = 30" by simp
  with h1 h2 h3 h4 tile_sample_eval show ?thesis by blast
qed

text \<open>
  Three points give a cloud of \<open>30\<close> points, ten for each, not nine; the fifth copy
  of a point is the point itself, and the shift is \<open>dx / 2.01\<close>, not \<open>dx / 2\<close>.
\<close>

theorem tile_coords_replicas_counterexample:
  "map_sum id (length \<circ> fst) (tile_coords 1 [(0, 0), (1, 0), (0, 2)] [0, 1, - 1]) = Inr 30
   \<and> newcs 1 1 (0, 0) ! 4 = (0, 0)
   \<and> newcs 1 1 (0, 0) ! 8 = (100 / 201, 100 / 201)"
  by code_simp


lemma label_patches_style:
  assumes "label_patches G box cloud tiled colors i lab = Inr ps" and "p \<in> set ps"
  shows "(lab = 0 \<longrightarrow> fc p = PaintName ''black'' \<and> patch_alpha p = 0.2
                     \<and> ec p = PaintName ''none'' \<and> linestyle p = ''none'')
       \<and> (lab \<noteq> 0 \<longrightarrow> fc p = PaintName ''none'' \<and> i < length colors
                     \<and> ec p = PaintRGBA (colors ! i)
                     \<and> linestyle p = (if 0 \<le> lab then ''solid'' else ''dashed''))"
proof (cases "lab = 0")
  case True
  with assms show ?thesis
    by (auto simp: label_patches_def split: sum.splits)
next
  case False
  with assms obtain iter c where c: "py_index colors (int i) = Inr c"
    and ps: "ps = map (\<lambda>p. \<lparr>path = p, fc = PaintName ''none'', patch_alpha = 1,
                             ec = PaintRGBA c, lw = 6,
                             linestyle = (if 0 \<le> lab then ''solid'' else ''dashed'')\<rparr>) iter"
    by (auto simp: label_patches_def split: sum.splits)
  from c have "i < length colors \<and> c = colors ! i"
    by (auto simp: py_index_def Let_def split: if_splits)
  with False ps assms(2) show ?thesis by auto
qed

lemma label_loop_parts:
  "label_loop G box cloud tiled colors ils arts = (arts', err) \<Longrightarrow>
   \<exists>pss. arts' = arts @ concat pss \<and> length pss \<le> length ils
         \<and> (err = None \<longrightarrow> length pss = length ils)
         \<and> (\<forall>k < length pss.
               label_patches G box cloud tiled colors (fst (ils ! k)) (snd (ils ! k))
                 = Inr (pss ! k))"
proof (induction ils arbitrary: arts)
  case Nil
  then have "arts' = arts @ concat []" by simp
  then show ?case by (intro exI [of _ "[]"]) simp
next
  case (Cons il ils)
  obtain i lab where il: "il = (i, lab)" by (cases il)
  show ?case
  proof (cases "label_patches G box cloud tiled colors i lab")
    case (Inl e)
    with Cons.prems il have "arts' = arts @ concat []" and "err = Some e" by simp_all
    then show ?thesis by (intro exI [of _ "[]"]) simp
  next
    case (Inr ps)
    with Cons.prems il
    have "label_loop G box cloud tiled colors ils (arts @ ps) = (arts', err)" by simp
    from Cons.IH [OF this] obtain pss where
      a: "arts' = (arts @ ps) @ concat pss" and l: "length pss \<le> length ils"
      and n: "err = None \<longrightarrow> length pss = length ils"
      and k: "\<forall>k < length pss.
               label_patches G box cloud tiled colors (fst (ils ! k)) (snd (ils ! k))
                 = Inr (pss ! k)"
      by blast
    have "\<forall>k < length (ps # pss).
            label_patches G box cloud tiled colors (fst ((il # ils) ! k)) (snd ((il # ils) ! k))
              = Inr ((ps # pss) ! k)"
    proof (intro allI impI)
      fix j assume "j < length (ps # pss)"
      then show "label_patches G box cloud tiled colors (fst ((il # ils) ! j))
                   (snd ((il # ils) ! j)) = Inr ((ps # pss) ! j)"
        using k Inr il by (cases j) simp_all
    qed
    with a l n show ?thesis by (intro exI [of _ "ps # pss"]) simp
  qed
qed

text \<open>
  C6. The patches \<^verbatim>\<open>cluster_on_fig\<close> adds to the figure come label by label, in
  the order of the distinct labels, also when a later label raises. Every patch of
  the label \<open>0\<close> has the face colour black at alpha \<open>0.2\<close> and no edge; every patch
  of another label has no face colour and the edge colour of its index in the colour
  array, with a solid line for a label \<open>\<ge> 0\<close> and a dashed line for a label \<open>< 0\<close>.
\<close>

theorem cluster_on_fig_patch_styles:
  "\<exists>pss. artists (fst (cluster_on_fig G registry self coords clu_labs cmap))
            = artists self @ concat pss
     \<and> length pss \<le> length (np_unique clu_labs)
     \<and> (snd (cluster_on_fig G registry self coords clu_labs cmap) = None
          \<longrightarrow> length pss = length (np_unique clu_labs))
     \<and> (\<forall>k < length pss. \<forall>p \<in> set (pss ! k).
          (np_unique clu_labs ! k = 0 \<longrightarrow>
             fc p = PaintName ''black'' \<and> patch_alpha p = 0.2
             \<and> ec p = PaintName ''none'' \<and> linestyle p = ''none'')
        \<and> (np_unique clu_labs ! k \<noteq> 0 \<longrightarrow>
             fc p = PaintName ''none''
             \<and> (\<exists>colors. cluster_colors registry cmap (np_unique clu_labs) = Inr colors
                   \<and> k < length colors \<and> ec p = PaintRGBA (colors ! k))
             \<and> linestyle p = (if 0 \<le> np_unique clu_labs ! k then ''solid'' else ''dashed'')))"
proof -
  let ?u = "np_unique clu_labs"
  let ?r = "cluster_on_fig G registry self coords clu_labs cmap"
  show ?thesis
  proof (cases "cluster_colors registry cmap ?u")
    case (Inl e)
    then have "?r = (self, Some e)" by (simp add: cluster_on_fig_def Let_def)
    then show ?thesis by (intro exI [of _ "[]"]) simp
  next
    case colors: (Inr colors)
    show ?thesis
    proof (cases "tile_coords (nrow self) coords clu_labs")
      case (Inl e)
      with colors have "?r = (self, Some e)" by (simp add: cluster_on_fig_def Let_def)
      then show ?thesis by (intro exI [of _ "[]"]) simp
    next
      case (Inr ct)
      obtain cloud tiled where ct: "ct = (cloud, tiled)" by (cases ct)
      obtain arts err where
        ll: "label_loop G (panel_box self) cloud tiled colors (enumerate 0 ?u) (artists self)
               = (arts, err)"
        by (cases "label_loop G (panel_box self) cloud tiled colors (enumerate 0 ?u)
                     (artists self)")
      with colors Inr ct have r: "?r = (self\<lparr>artists := arts\<rparr>, err)"
        by (simp add: cluster_on_fig_def Let_def)
      from label_loop_parts [OF ll] obtain pss where
        a: "arts = artists self @ concat pss" and l: "length pss \<le> length ?u"
        and n: "err = None \<longrightarrow> length pss = length ?u"
        and k: "\<forall>k < length pss.
                 label_patches G (panel_box self) cloud tiled colors
                   (fst (enumerate 0 ?u ! k)) (snd (enumerate 0 ?u ! k)) = Inr (pss ! k)"
        by auto
      have st: "\<forall>k < length pss. \<forall>p \<in> set (pss ! k).
          (?u ! k = 0 \<longrightarrow>
             fc p = PaintName ''black'' \<and> patch_alpha p = 0.2
             \<and> ec p = PaintName ''none'' \<and> linestyle p = ''none'')
        \<and> (?u ! k \<noteq> 0 \<longrightarrow>
             fc p = PaintName ''none''
             \<and> (\<exists>colors. cluster_colors registry cmap ?u = Inr colors
                   \<and> k < length colors \<and> ec p = PaintRGBA (colors ! k))
             \<and> linestyle p = (if 0 \<le> ?u ! k then ''solid'' else ''dashed''))"
      proof (intro allI impI ballI)
        fix j p assume j: "j < length pss" and p: "p \<in> set (pss ! j)"
        from j l have "j < length ?u" by simp
        then have e: "enumerate 0 ?u ! j = (j, ?u ! j)" by (simp add: nth_enumerate_eq)
        from k j have "label_patches G (panel_box self) cloud tiled colors
                         (fst (enumerate 0 ?u ! j)) (snd (enumerate 0 ?u ! j)) = Inr (pss ! j)"
          by blast
        then have "label_patches G (panel_box self) cloud tiled colors j (?u ! j)
                         = Inr (pss ! j)"
          unfolding e by simp
        from label_patches_style [OF this p] colors
        show "(?u ! j = 0 \<longrightarrow>
             fc p = PaintName ''black'' \<and> patch_alpha p = 0.2
             \<and> ec p = PaintName ''none'' \<and> linestyle p = ''none'')
        \<and> (?u ! j \<noteq> 0 \<longrightarrow>
             fc p = PaintName ''none''
             \<and> (\<exists>colors. cluster_colors registry cmap ?u = Inr colors
                   \<and> j < length colors \<and> ec p = PaintRGBA (colors ! j))
             \<and> linestyle p = (if 0 \<le> ?u ! j then ''solid'' else ''dashed''))"
          by simp
      qed
      from r a l n st show ?thesis by (intro exI [of _ pss]) simp
    qed
  qed
qed


lemma cluster_sample_eval:
  "cluster_on_fig sample_contouring [''PiYG'' \<mapsto> grey_cmap]
     \<lparr>nrow = 1, panel_box = ((0, 0), (1, 1)), artists = []\<rparr>
     [(0, 0), (1, 0), (0, 2)] [0, 1, - 1] None =
   (\<lparr>nrow = 1, panel_box = ((0, 0), (1, 1)),
     artists =
       [\<lparr>path = [(0, 0), (1, 1)], fc = PaintName ''none'', patch_alpha = 1,
         ec = PaintRGBA \<lparr>red = 0.33, green = 0.33, blue = 0.33, alpha = 1\<rparr>,
         lw = 6, linestyle = ''dashed''\<rparr>,
        \<lparr>path = [(0, 0), (1, 0), (1, 1)], fc = PaintName ''black'', patch_alpha = 0.2,
         ec = PaintName ''none'', lw = 6, linestyle = ''none''\<rparr>,
        \<lparr>path = [(0, 0), (1, 1)], fc = PaintName ''none'', patch_alpha = 1,
         ec = PaintRGBA \<lparr>red = 1, green = 1, blue = 1, alpha = 1\<rparr>,
         lw = 6, linestyle = ''solid''\<rparr>]\<rparr>,
    None)"
  by code_simp

lemma np_unique_sample: "np_unique [0, 1, - 1] = [- 1, 0, 1]"
  by code_simp



theorem cluster_on_fig_patch_styles_witness:
  "cluster_on_fig sample_contouring [''PiYG'' \<mapsto> grey_cmap]
     \<lparr>nrow = 1, panel_box = ((0, 0), (1, 1)), artists = []\<rparr>
     [(0, 0), (1, 0), (0, 2)] [0, 1, - 1] None =
   (\<lparr>nrow = 1, panel_box = ((0, 0), (1, 1)),
     artists =
       [\<lparr>path = [(0, 0), (1, 1)], fc = PaintName ''none'', patch_alpha = 1,
         ec = PaintRGBA \<lparr>red = 0.33, green = 0.33, blue = 0.33, alpha = 1\<rparr>,
         lw = 6, linestyle = ''dashed''\<rparr>,
        \<lparr>path = [(0, 0), (1, 0), (1, 1)], fc = PaintName ''black'', patch_alpha = 0.2,
         ec = PaintName ''none'', lw = 6, linestyle = ''none''\<rparr>,
        \<lparr>path = [(0, 0), (1, 1)], fc = PaintName ''none'', patch_alpha = 1,
         ec = PaintRGBA \<lparr>red = 1, green = 1, blue = 1, alpha = 1\<rparr>,
         lw = 6, linestyle = ''solid''\<rparr>]\<rparr>,
    None)
   \<and> (\<exists>pss. concat pss =
       [\<lparr>path = [(0, 0), (1, 1)], fc = PaintName ''none'', patch_alpha = 1,
         ec = PaintRGBA \<lparr>red = 0.33, green = 0.33, blue = 0.33, alpha = 1\<rparr>,
         lw = 6, linestyle = ''dashed''\<rparr>,
        \<lparr>path = [(0, 0), (1, 0), (1, 1)], fc = PaintName ''black'', patch_alpha = 0.2,
         ec = PaintName ''none'', lw = 6, linestyle = ''none''\<rparr>,
        \<lparr>path = [(0, 0), (1, 1)], fc = PaintName ''none'', patch_alpha = 1,
         ec = PaintRGBA \<lparr>red = 1, green = 1, blue = 1, alpha = 1\<rparr>,
         lw = 6, linestyle = ''solid''\<rparr>]
       \<and> length pss = 3)"
proof (rule conjI)
  let ?self = "\<lparr>nrow = 1, panel_box = ((0, 0), (1, 1)), artists = []\<rparr>"
  let ?r = "cluster_on_fig sample_contouring [''PiYG'' \<mapsto> grey_cmap] ?self
              [(0, 0), (1, 0), (0, 2)] [0, 1, - 1] None"
  let ?A = "[\<lparr>path = [(0, 0), (1, 1)], fc = PaintName ''none'', patch_alpha = 1,
         ec = PaintRGBA \<lparr>red = 0.33, green = 0.33, blue = 0.33, alpha = 1\<rparr>,
         lw = 6, linestyle = ''dashed''\<rparr>,
        \<lparr>path = [(0, 0), (1, 0), (1, 1)], fc = PaintName ''black'', patch_alpha = 0.2,
         ec = PaintName ''none'', lw = 6, linestyle = ''none''\<rparr>,
        \<lparr>path = [(0, 0), (1, 1)], fc = PaintName ''none'', patch_alpha = 1,
         ec = PaintRGBA \<lparr>red = 1, green = 1, blue = 1, alpha = 1\<rparr>,
         lw = 6, linestyle = ''solid''\<rparr>]"
  show ev: "?r = (\<lparr>nrow = 1, panel_box = ((0, 0), (1, 1)), artists = ?A\<rparr>, None)"
    by (rule cluster_sample_eval)
  have fa: "artists (fst ?r) = ?A" by (simp only: ev fst_conv clusterplot.simps)
  have sn: "snd ?r = None" by (simp only: ev snd_conv)
  from cluster_on_fig_patch_styles [of sample_contouring "[''PiYG'' \<mapsto> grey_cmap]"
      ?self "[(0, 0), (1, 0), (0, 2)]" "[0, 1, - 1]" None]
  obtain pss where P: "artists (fst ?r) = artists ?self @ concat pss
     \<and> length pss \<le> length (np_unique [0, 1, - 1])
     \<and> (snd ?r = None \<longrightarrow> length pss = length (np_unique [0, 1, - 1]))
     \<and> (\<forall>k < length pss. \<forall>p \<in> set (pss ! k).
          (np_unique [0, 1, - 1] ! k = 0 \<longrightarrow>
             fc p = PaintName ''black'' \<and> patch_alpha p = 0.2
             \<and> ec p = PaintName ''none'' \<and> linestyle p = ''none'')
        \<and> (np_unique [0, 1, - 1] ! k \<noteq> 0 \<longrightarrow>
             fc p = PaintName ''none''
             \<and> (\<exists>colors. cluster_colors [''PiYG'' \<mapsto> grey_cmap] None (np_unique [0, 1, - 1])
                     = Inr colors
                   \<and> k < length colors \<and> ec p = PaintRGBA (colors ! k))
             \<and> linestyle p = (if 0 \<le> np_unique [0, 1, - 1] ! k then ''solid'' else ''dashed'')))"
    ..
  from P have "artists (fst ?r) = artists ?self @ concat pss" by (rule conjunct1)
  then have c: "concat pss = ?A" unfolding fa by (simp only: clusterplot.simps append_Nil)
  from P have "snd ?r = None \<longrightarrow> length pss = length (np_unique [0, 1, - 1])"
    by (elim conjE)
  with sn have "length pss = length (np_unique [0, 1, - 1])" by (rule rev_mp)
  then have "length pss = 3" unfolding np_unique_sample by simp
  with c show "\<exists>pss. concat pss = ?A \<and> length pss = 3" by (intro exI conjI)
qed

section \<open>Properties of the masked groups\<close>

lemma collect_Inr:
  "collect f xs = Inr ys \<Longrightarrow>
     length ys = length xs \<and> (\<forall>i < length xs. f (xs ! i) = Inr (ys ! i))"
proof (induction xs arbitrary: ys)
  case Nil
  then show ?case by simp
next
  case (Cons x xs)
  from Cons.prems obtain y ys' where y: "f x = Inr y" and ys': "collect f xs = Inr ys'"
    and ys: "ys = y # ys'"
    by (auto split: sum.splits)
  from Cons.IH [OF ys'] have l: "length ys' = length xs"
    and n: "\<forall>i < length xs. f (xs ! i) = Inr (ys' ! i)"
    by simp_all
  have "\<forall>i < length (x # xs). f ((x # xs) ! i) = Inr (ys ! i)"
  proof (intro allI impI)
    fix i assume "i < length (x # xs)"
    then show "f ((x # xs) ! i) = Inr (ys ! i)"
      using y n ys by (cases i) simp_all
  qed
  with l ys show ?case by simp
qed

lemma collect_returns:
  "(\<And>x. x \<in> set xs \<Longrightarrow> \<exists>y. f x = Inr y) \<Longrightarrow> \<exists>ys. collect f xs = Inr ys"
proof (induction xs)
  case Nil
  then show ?case by simp
next
  case (Cons x xs)
  from Cons.prems [of x] obtain y where y: "f x = Inr y" by auto
  from Cons.IH Cons.prems obtain ys where "collect f xs = Inr ys" by auto
  with y show ?case by simp
qed

lemma length_mask_T: "length (mask_T m) = snd (mask_shape m)"
  by (simp add: mask_T_def)

lemma stippling_placeholder_eq:
  "shape da = n0 # spatial \<Longrightarrow> 0 < n0 \<Longrightarrow>
   stippling_placeholder da =
     Inr (da\<lparr>shape := 1 # spatial, data := replicate (prod_list spatial) 0\<rparr>)"
  by (simp add: stippling_placeholder_def np_zeros_def)

lemma contour_placeholder_eq:
  "shape da = n0 # spatial \<Longrightarrow> 0 < n0 \<Longrightarrow>
   contour_placeholder da =
     Inr (da\<lparr>dims := tl (dims da), shape := spatial,
             data := replicate (prod_list spatial) 0\<rparr>)"
  by (simp add: contour_placeholder_def np_zeros_def)

lemma to_test_returns:
  assumes sh: "shape da = n0 # spatial" and n0: "0 < n0"
    and ok: "\<forall>k < snd (mask_shape msk). \<not> np_sum (mask_T msk ! k) < 1 \<longrightarrow>
               (\<exists>sub. xr_isel P da ''time'' (mask_T msk ! k) = Inr sub)"
  shows "\<exists>to_test. collect (to_test_item P da) (mask_T msk) = Inr to_test"
proof (rule collect_returns)
  fix mas assume "mas \<in> set (mask_T msk)"
  then obtain k where k: "k < snd (mask_shape msk)" and mas: "mas = mask_T msk ! k"
    by (auto simp: in_set_conv_nth length_mask_T)
  show "\<exists>y. to_test_item P da mas = Inr y"
  proof (cases "np_sum mas < 1")
    case True
    then show ?thesis
      using stippling_placeholder_eq [OF sh n0] by (simp add: to_test_item_def)
  next
    case False
    with ok k mas show ?thesis by (simp add: to_test_item_def)
  qed
qed

lemma time_name_leading:
  assumes "dims da \<noteq> []" and "''time'' \<in> set (dims da) \<longrightarrow> hd (dims da) = ''time''"
  shows "contour_to_plot P da msk = collect (to_plot_item P da (hd (dims da))) (mask_T msk)"
  using assms by (cases "dims da") (auto simp: contour_to_plot_def)

lemma to_plot_returns:
  assumes sh: "shape da = n0 # spatial" and n0: "0 < n0" and dm: "dims da \<noteq> []"
    and lead: "''time'' \<in> set (dims da) \<longrightarrow> hd (dims da) = ''time''"
    and ok: "\<forall>k < snd (mask_shape msk). \<not> np_sum (mask_T msk ! k) < 1 \<longrightarrow>
               (\<exists>sub m. xr_isel P da (hd (dims da)) (mask_T msk ! k) = Inr sub
                  \<and> xr_mean P sub (hd (dims da)) = Inr m)"
  shows "\<exists>to_plot. contour_to_plot P da msk = Inr to_plot"
proof -
  have "\<exists>to_plot. collect (to_plot_item P da (hd (dims da))) (mask_T msk) = Inr to_plot"
  proof (rule collect_returns)
    fix mas assume "mas \<in> set (mask_T msk)"
    then obtain k where k: "k < snd (mask_shape msk)" and mas: "mas = mask_T msk ! k"
      by (auto simp: in_set_conv_nth length_mask_T)
    show "\<exists>y. to_plot_item P da (hd (dims da)) mas = Inr y"
    proof (cases "np_sum mas < 1")
      case True
      then show ?thesis
        using contour_placeholder_eq [OF sh n0] by (simp add: to_plot_item_def)
    next
      case False
      with ok k mas obtain sub m where "xr_isel P da (hd (dims da)) mas = Inr sub"
        and "xr_mean P sub (hd (dims da)) = Inr m"
        by blast
      with False show ?thesis by (simp add: to_plot_item_def)
    qed
  qed
  then show ?thesis by (simp add: time_name_leading [OF dm lead])
qed

lemma hatch_loop_returns:
  assumes "\<forall>ax lo la signif h. \<exists>cs. ax_contourf P ax lo la signif h = Inr cs"
    and "\<forall>cs c. \<exists>u. set_edges P cs c = Inr u"
  shows "snd (hatch_loop P lon_values lat_values color hatch pairs calls) = None"
proof (induction pairs arbitrary: calls)
  case Nil
  show ?case by simp
next
  case (Cons pair pairs)
  obtain ax signif where pair: "pair = (ax, signif)" by (cases pair)
  from assms(1) obtain cs where cs: "ax_contourf P ax lon_values lat_values signif hatch = Inr cs"
    by blast
  from assms(2) obtain u where u: "set_edges P cs color = Inr u" by blast
  from Cons.IH [of "calls @ [Hatch ax signif hatch, EdgeColor ax color]"] pair cs u
  show ?case by simp
qed

text \<open>
  C7, as the code has it. Take a field whose time dimension, the one named
  \<^verbatim>\<open>time\<close> or else the first, is its first dimension and has at least one step,
  and a column of the mask without a member. Then the group of \<^verbatim>\<open>add_stippling\<close>
  is one time step of zeros of the spatial shape of the field, and the group of
  \<^verbatim>\<open>add_any_contour_from_mask\<close> is a field of zeros of that shape, whatever the
  selection routines do. Building the groups raises only when the selection or
  the mean of a group with members raises, and \<^verbatim>\<open>add_stippling\<close> as a whole
  only then or when a coordinate is missing or the significance test or the drawing
  raises.
\<close>

theorem empty_group_placeholder:
  assumes sh: "shape da = n0 # spatial" and n0: "0 < n0" and dm: "dims da \<noteq> []"
    and lead: "''time'' \<in> set (dims da) \<longrightarrow> hd (dims da) = ''time''"
    and j: "j < snd (mask_shape msk)" and empty: "np_sum (mask_T msk ! j) < 1"
  shows "to_test_item P da (mask_T msk ! j) =
           Inr (da\<lparr>shape := 1 # spatial, data := replicate (prod_list spatial) 0\<rparr>)
       \<and> to_plot_item P da (hd (dims da)) (mask_T msk ! j) =
           Inr (da\<lparr>dims := tl (dims da), shape := spatial,
                   data := replicate (prod_list spatial) 0\<rparr>)
       \<and> (\<forall>to_test. collect (to_test_item P da) (mask_T msk) = Inr to_test \<longrightarrow>
             to_test ! j = da\<lparr>shape := 1 # spatial, data := replicate (prod_list spatial) 0\<rparr>)
       \<and> (\<forall>to_plot. contour_to_plot P da msk = Inr to_plot \<longrightarrow>
             to_plot ! j = da\<lparr>dims := tl (dims da), shape := spatial,
                               data := replicate (prod_list spatial) 0\<rparr>)
       \<and> ((\<forall>k < snd (mask_shape msk). \<not> np_sum (mask_T msk ! k) < 1 \<longrightarrow>
               (\<exists>sub. xr_isel P da ''time'' (mask_T msk ! k) = Inr sub))
           \<longrightarrow> (\<exists>to_test. collect (to_test_item P da) (mask_T msk) = Inr to_test))
       \<and> ((\<forall>k < snd (mask_shape msk). \<not> np_sum (mask_T msk ! k) < 1 \<longrightarrow>
               (\<exists>sub. xr_isel P da ''time'' (mask_T msk ! k) = Inr sub))
            \<and> lon da \<noteq> None \<and> lat da \<noteq> None
            \<and> (\<forall>group. \<exists>signif. field_significance P group da FDR = Inr signif)
            \<and> (\<forall>ax lo la signif h. \<exists>cs. ax_contourf P ax lo la signif h = Inr cs)
            \<and> (\<forall>cs c. \<exists>u. set_edges P cs c = Inr u)
           \<longrightarrow> snd (add_stippling P n_axes da msk FDR color hatch) = None)
       \<and> ((\<forall>k < snd (mask_shape msk). \<not> np_sum (mask_T msk ! k) < 1 \<longrightarrow>
               (\<exists>sub m. xr_isel P da (hd (dims da)) (mask_T msk ! k) = Inr sub
                  \<and> xr_mean P sub (hd (dims da)) = Inr m))
           \<longrightarrow> (\<exists>to_plot. contour_to_plot P da msk = Inr to_plot))"
proof (intro conjI)
  let ?Za = "da\<lparr>shape := 1 # spatial, data := replicate (prod_list spatial) 0\<rparr>"
  let ?Zb = "da\<lparr>dims := tl (dims da), shape := spatial,
                data := replicate (prod_list spatial) 0\<rparr>"
  from j have jl: "j < length (mask_T msk)" by (simp add: length_mask_T)
  show t: "to_test_item P da (mask_T msk ! j) = Inr ?Za"
    using empty stippling_placeholder_eq [OF sh n0] by (simp add: to_test_item_def)
  show p: "to_plot_item P da (hd (dims da)) (mask_T msk ! j) = Inr ?Zb"
    using empty contour_placeholder_eq [OF sh n0] by (simp add: to_plot_item_def)
  show "\<forall>to_test. collect (to_test_item P da) (mask_T msk) = Inr to_test \<longrightarrow>
          to_test ! j = ?Za"
  proof (intro allI impI)
    fix to_test assume "collect (to_test_item P da) (mask_T msk) = Inr to_test"
    from collect_Inr [OF this] jl
    have "to_test_item P da (mask_T msk ! j) = Inr (to_test ! j)" by blast
    with t show "to_test ! j = ?Za" by simp
  qed
  show "\<forall>to_plot. contour_to_plot P da msk = Inr to_plot \<longrightarrow> to_plot ! j = ?Zb"
  proof (intro allI impI)
    fix to_plot assume "contour_to_plot P da msk = Inr to_plot"
    then have "collect (to_plot_item P da (hd (dims da))) (mask_T msk) = Inr to_plot"
      by (simp add: time_name_leading [OF dm lead])
    from collect_Inr [OF this] jl
    have "to_plot_item P da (hd (dims da)) (mask_T msk ! j) = Inr (to_plot ! j)" by blast
    with p show "to_plot ! j = ?Zb" by simp
  qed
  show "(\<forall>k < snd (mask_shape msk). \<not> np_sum (mask_T msk ! k) < 1 \<longrightarrow>
               (\<exists>sub. xr_isel P da ''time'' (mask_T msk ! k) = Inr sub))
           \<longrightarrow> (\<exists>to_test. collect (to_test_item P da) (mask_T msk) = Inr to_test)"
    using to_test_returns [OF sh n0] by blast
  show "(\<forall>k < snd (mask_shape msk). \<not> np_sum (mask_T msk ! k) < 1 \<longrightarrow>
               (\<exists>sub. xr_isel P da ''time'' (mask_T msk ! k) = Inr sub))
            \<and> lon da \<noteq> None \<and> lat da \<noteq> None
            \<and> (\<forall>group. \<exists>signif. field_significance P group da FDR = Inr signif)
            \<and> (\<forall>ax lo la signif h. \<exists>cs. ax_contourf P ax lo la signif h = Inr cs)
            \<and> (\<forall>cs c. \<exists>u. set_edges P cs c = Inr u)
           \<longrightarrow> snd (add_stippling P n_axes da msk FDR color hatch) = None"
  proof (intro impI, elim conjE)
    assume ok: "\<forall>k < snd (mask_shape msk). \<not> np_sum (mask_T msk ! k) < 1 \<longrightarrow>
               (\<exists>sub. xr_isel P da ''time'' (mask_T msk ! k) = Inr sub)"
      and lo: "lon da \<noteq> None" and la: "lat da \<noteq> None"
      and fs: "\<forall>group. \<exists>signif. field_significance P group da FDR = Inr signif"
      and cf: "\<forall>ax lo la signif h. \<exists>cs. ax_contourf P ax lo la signif h = Inr cs"
      and se: "\<forall>cs c. \<exists>u. set_edges P cs c = Inr u"
    from to_test_returns [OF sh n0 ok] obtain to_test where
      tt: "collect (to_test_item P da) (mask_T msk) = Inr to_test"
      by blast
    from lo la obtain lon_values lat_values where
      lv: "lon da = Some lon_values" "lat da = Some lat_values"
      by auto
    have "\<exists>ys. collect (\<lambda>i. field_significance P (to_test ! i) da FDR)
                 [0..<snd (mask_shape msk)] = Inr ys"
      by (rule collect_returns) (use fs in blast)
    then obtain significances where
      sg: "collect (\<lambda>i. field_significance P (to_test ! i) da FDR)
         [0..<snd (mask_shape msk)] = Inr significances"
      by blast
    have "add_stippling P n_axes da msk FDR color hatch =
            hatch_loop P lon_values lat_values color hatch (zip [0..<n_axes] significances) []"
      using tt lv sg by (simp add: add_stippling_def)
    with hatch_loop_returns [OF cf se]
    show "snd (add_stippling P n_axes da msk FDR color hatch) = None" by simp
  qed
  show "(\<forall>k < snd (mask_shape msk). \<not> np_sum (mask_T msk ! k) < 1 \<longrightarrow>
               (\<exists>sub m. xr_isel P da (hd (dims da)) (mask_T msk ! k) = Inr sub
                  \<and> xr_mean P sub (hd (dims da)) = Inr m))
           \<longrightarrow> (\<exists>to_plot. contour_to_plot P da msk = Inr to_plot)"
    using to_plot_returns [OF sh n0 dm lead] by blast
qed

text \<open>
  C8, as the code has it. With a type other than \<^verbatim>\<open>"contourf"\<close>, \<^verbatim>\<open>"contour"\<close>
  and \<^verbatim>\<open>"both"\<close>, \<^verbatim>\<open>add_any_contour_from_mask\<close> first builds the groups; when
  that raises, its exception leaves the call, and otherwise the call raises the
  \<^verbatim>\<open>ValueError\<close> whose message names the three allowed values. No drawing call
  is made in either case, and no stippling.
\<close>

theorem invalid_type_rejected:
  assumes "type \<noteq> ''contourf''" and "type \<noteq> ''contour''" and "type \<noteq> ''both''"
  shows \<open>add_any_contour_from_mask P n_axes da msk type stippling =
     (case contour_to_plot P da msk of
        Inl e \<Rightarrow> ([], Inl e)
      | Inr to_plot \<Rightarrow>
          ([], Inl (ValueError (''Wrong type='' @ py_repr P type
                      @ '', choose among "contourf", "contour" or "both"''))))\<close>
  using assms by (simp add: add_any_contour_from_mask_def split: sum.splits)

lemma to_test_sample_eval:
  "collect (to_test_item sample_plotting
      \<lparr>dims = [''time'', ''lat'', ''lon''], shape = [2, 2, 2], data = [1, 2, 3, 4, 5, 6, 7, 8],
       lon = Some [0, 10], lat = Some [40, 50]\<rparr>)
     (mask_T \<lparr>mask_shape = (2, 2), mask_rows = [[True, False], [True, False]]\<rparr>) =
   Inr [\<lparr>dims = [''time'', ''lat'', ''lon''], shape = [2, 2, 2], data = [1, 2, 3, 4, 5, 6, 7, 8],
       lon = Some [0, 10], lat = Some [40, 50]\<rparr>,
        \<lparr>dims = [''time'', ''lat'', ''lon''], shape = [1, 2, 2], data = [0, 0, 0, 0],
       lon = Some [0, 10], lat = Some [40, 50]\<rparr>]"
  by code_simp

lemma stippling_sample_eval:
  "add_stippling sample_plotting 2
     \<lparr>dims = [''time'', ''lat'', ''lon''], shape = [2, 2, 2], data = [1, 2, 3, 4, 5, 6, 7, 8],
       lon = Some [0, 10], lat = Some [40, 50]\<rparr>
     \<lparr>mask_shape = (2, 2), mask_rows = [[True, False], [True, False]]\<rparr> True ''black'' ''..'' =
   ([Hatch 0 \<lparr>dims = [''lat'', ''lon''], shape = [2, 2], data = [0, 0, 0, 0],
       lon = Some [0, 10], lat = Some [40, 50]\<rparr> ''..'', EdgeColor 0 ''black'',
     Hatch 1 \<lparr>dims = [''lat'', ''lon''], shape = [2, 2], data = [0, 0, 0, 0],
       lon = Some [0, 10], lat = Some [40, 50]\<rparr> ''..'', EdgeColor 1 ''black''],
    None)"
  by code_simp

theorem empty_group_placeholder_witness:
  "shape \<lparr>dims = [''time'', ''lat'', ''lon''], shape = [2, 2, 2], data = [1, 2, 3, 4, 5, 6, 7, 8],
       lon = Some [0, 10], lat = Some [40, 50]\<rparr> = 2 # [2, 2] \<and> (0::nat) < 2
   \<and> dims \<lparr>dims = [''time'', ''lat'', ''lon''], shape = [2, 2, 2], data = [1, 2, 3, 4, 5, 6, 7, 8],
       lon = Some [0, 10], lat = Some [40, 50]\<rparr> \<noteq> []
   \<and> hd (dims \<lparr>dims = [''time'', ''lat'', ''lon''], shape = [2, 2, 2], data = [1, 2, 3, 4, 5, 6, 7, 8],
       lon = Some [0, 10], lat = Some [40, 50]\<rparr>) = ''time''
   \<and> (1::nat) < snd (mask_shape \<lparr>mask_shape = (2, 2), mask_rows = [[True, False], [True, False]]\<rparr>)
   \<and> np_sum (mask_T \<lparr>mask_shape = (2, 2), mask_rows = [[True, False], [True, False]]\<rparr> ! 1) < 1
   \<and> collect (to_test_item sample_plotting
        \<lparr>dims = [''time'', ''lat'', ''lon''], shape = [2, 2, 2], data = [1, 2, 3, 4, 5, 6, 7, 8],
       lon = Some [0, 10], lat = Some [40, 50]\<rparr>)
       (mask_T \<lparr>mask_shape = (2, 2), mask_rows = [[True, False], [True, False]]\<rparr>) =
     Inr [\<lparr>dims = [''time'', ''lat'', ''lon''], shape = [2, 2, 2], data = [1, 2, 3, 4, 5, 6, 7, 8],
       lon = Some [0, 10], lat = Some [40, 50]\<rparr>,
          \<lparr>dims = [''time'', ''lat'', ''lon''], shape = [1, 2, 2], data = [0, 0, 0, 0],
       lon = Some [0, 10], lat = Some [40, 50]\<rparr>]
   \<and> [\<lparr>dims = [''time'', ''lat'', ''lon''], shape = [2, 2, 2], data = [1, 2, 3, 4, 5, 6, 7, 8],
       lon = Some [0, 10], lat = Some [40, 50]\<rparr>,
       \<lparr>dims = [''time'', ''lat'', ''lon''], shape = [1, 2, 2], data = [0, 0, 0, 0],
       lon = Some [0, 10], lat = Some [40, 50]\<rparr>] ! 1 =
     \<lparr>dims = [''time'', ''lat'', ''lon''], shape = [2, 2, 2], data = [1, 2, 3, 4, 5, 6, 7, 8],
       lon = Some [0, 10], lat = Some [40, 50]\<rparr>\<lparr>shape := 1 # [2, 2], data := replicate (prod_list [2, 2]) 0\<rparr>
   \<and> add_stippling sample_plotting 2
        \<lparr>dims = [''time'', ''lat'', ''lon''], shape = [2, 2, 2], data = [1, 2, 3, 4, 5, 6, 7, 8],
       lon = Some [0, 10], lat = Some [40, 50]\<rparr>
        \<lparr>mask_shape = (2, 2), mask_rows = [[True, False], [True, False]]\<rparr> True ''black'' ''..'' =
      ([Hatch 0 \<lparr>dims = [''lat'', ''lon''], shape = [2, 2], data = [0, 0, 0, 0],
       lon = Some [0, 10], lat = Some [40, 50]\<rparr> ''..'', EdgeColor 0 ''black'',
        Hatch 1 \<lparr>dims = [''lat'', ''lon''], shape = [2, 2], data = [0, 0, 0, 0],
       lon = Some [0, 10], lat = Some [40, 50]\<rparr> ''..'', EdgeColor 1 ''black''],
       None)"
proof -
  let ?da = "\<lparr>dims = [''time'', ''lat'', ''lon''], shape = [2, 2, 2], data = [1, 2, 3, 4, 5, 6, 7, 8],
       lon = Some [0, 10], lat = Some [40, 50]\<rparr>"
  let ?m = "\<lparr>mask_shape = (2, 2), mask_rows = [[True, False], [True, False]]\<rparr>"
  have h1: "shape ?da = 2 # [2, 2]" by simp
  have h2: "(0::nat) < 2" by simp
  have h3: "dims ?da \<noteq> []" by simp
  have h4: "hd (dims ?da) = ''time''" by simp
  then have h4': "''time'' \<in> set (dims ?da) \<longrightarrow> hd (dims ?da) = ''time''" by blast
  have h5: "(1::nat) < snd (mask_shape ?m)" by simp
  have h6: "np_sum (mask_T ?m ! 1) < 1" by code_simp
  from empty_group_placeholder [OF h1 h2 h3 h4' h5 h6, of sample_plotting] to_test_sample_eval
  have "[?da, \<lparr>dims = [''time'', ''lat'', ''lon''], shape = [1, 2, 2], data = [0, 0, 0, 0],
       lon = Some [0, 10], lat = Some [40, 50]\<rparr>] ! 1 =
     ?da\<lparr>shape := 1 # [2, 2], data := replicate (prod_list [2, 2]) 0\<rparr>"
    by blast
  with h1 h2 h3 h4 h5 h6 to_test_sample_eval stippling_sample_eval show ?thesis by blast
qed

text \<open>
  A field without a time step, with a mask of one column: the column has no member,
  \<^verbatim>\<open>add_stippling\<close> raises where it copies the placeholder, and
  \<^verbatim>\<open>add_any_contour_from_mask\<close> where it reads the first time step.
\<close>

theorem empty_group_no_time_step_counterexample:
  "add_stippling sample_plotting 1
     \<lparr>dims = [''time'', ''lat'', ''lon''], shape = [0, 2, 2], data = [],
       lon = Some [0, 10], lat = Some [40, 50]\<rparr>
     \<lparr>mask_shape = (0, 1), mask_rows = []\<rparr> True ''black'' ''..'' =
     ([], Some (ValueError ''Data shape must match shape of object''))
   \<and> add_any_contour_from_mask sample_plotting 1
     \<lparr>dims = [''time'', ''lat'', ''lon''], shape = [0, 2, 2], data = [],
       lon = Some [0, 10], lat = Some [40, 50]\<rparr>
     \<lparr>mask_shape = (0, 1), mask_rows = []\<rparr> ''contourf'' (StipplingBool False) =
     ([], Inl IndexError)"
  by code_simp

theorem invalid_type_rejected_witness:
  \<open>''scatter'' \<noteq> ''contourf'' \<and> ''scatter'' \<noteq> ''contour'' \<and> ''scatter'' \<noteq> ''both''
   \<and> add_any_contour_from_mask sample_plotting 2
       \<lparr>dims = [''time'', ''lat'', ''lon''], shape = [2, 2, 2], data = [1, 2, 3, 4, 5, 6, 7, 8],
       lon = Some [0, 10], lat = Some [40, 50]\<rparr>
       \<lparr>mask_shape = (2, 2), mask_rows = [[True, False], [True, False]]\<rparr> ''scatter'' (StipplingBool True) =
       ([], Inl (ValueError (''Wrong type='' @ [CHR 0x27] @ ''scatter'' @ [CHR 0x27]
                   @ '', choose among "contourf", "contour" or "both"'')))\<close>
proof -
  have h1: "''scatter'' \<noteq> ''contourf''" and h2: "''scatter'' \<noteq> ''contour''"
    and h3: "''scatter'' \<noteq> ''both''"
    by simp_all
  have p: "contour_to_plot sample_plotting
             \<lparr>dims = [''time'', ''lat'', ''lon''], shape = [2, 2, 2], data = [1, 2, 3, 4, 5, 6, 7, 8],
       lon = Some [0, 10], lat = Some [40, 50]\<rparr>
             \<lparr>mask_shape = (2, 2), mask_rows = [[True, False], [True, False]]\<rparr> =
             Inr [\<lparr>dims = [''lat'', ''lon''], shape = [2, 2], data = [3, 4, 5, 6],
       lon = Some [0, 10], lat = Some [40, 50]\<rparr>,
                  \<lparr>dims = [''lat'', ''lon''], shape = [2, 2], data = [0, 0, 0, 0],
       lon = Some [0, 10], lat = Some [40, 50]\<rparr>]"
    by code_simp
  have r: "py_repr sample_plotting ''scatter'' = [CHR 0x27] @ ''scatter'' @ [CHR 0x27]"
    by (simp add: sample_plotting_def)
  from invalid_type_rejected [OF h1 h2 h3, of sample_plotting 2
      "\<lparr>dims = [''time'', ''lat'', ''lon''], shape = [2, 2, 2], data = [1, 2, 3, 4, 5, 6, 7, 8],
       lon = Some [0, 10], lat = Some [40, 50]\<rparr>"
      "\<lparr>mask_shape = (2, 2), mask_rows = [[True, False], [True, False]]\<rparr>" "StipplingBool True"]
  have \<open>add_any_contour_from_mask sample_plotting 2
       \<lparr>dims = [''time'', ''lat'', ''lon''], shape = [2, 2, 2], data = [1, 2, 3, 4, 5, 6, 7, 8],
       lon = Some [0, 10], lat = Some [40, 50]\<rparr>
       \<lparr>mask_shape = (2, 2), mask_rows = [[True, False], [True, False]]\<rparr> ''scatter'' (StipplingBool True) =
       ([], Inl (ValueError (''Wrong type='' @ [CHR 0x27] @ ''scatter'' @ [CHR 0x27]
                   @ '', choose among "contourf", "contour" or "both"'')))\<close>
    unfolding p r by simp
  with h1 h2 h3 show ?thesis by blast
qed

text \<open>
  With an unknown type and a field without a time step, the exception is the
  \<^verbatim>\<open>IndexError\<close> of the first time step, raised while the groups are built, before
  the type is looked at.
\<close>

theorem invalid_type_after_groups_counterexample:
  "add_any_contour_from_mask sample_plotting 1
     \<lparr>dims = [''time'', ''lat'', ''lon''], shape = [0, 2, 2], data = [],
       lon = Some [0, 10], lat = Some [40, 50]\<rparr>
     \<lparr>mask_shape = (0, 1), mask_rows = []\<rparr> ''scatter'' (StipplingBool False) =
     ([], Inl IndexError)"
  by code_simp

end
